theory Spec2Isabelle
  imports Main "HOL-Library.Word"
begin

section \<open>Package logs: the level scales\<close>

text \<open>
  The logger adapter sits between two third-party level types. The HTTP framework's
  logger interface uses \<^verbatim>\<open>gommonLog.Lvl\<close>, a \<^verbatim>\<open>uint8\<close> whose constants count
  up from \<^verbatim>\<open>DEBUG = iota + 1\<close>; the structured logger uses \<^verbatim>\<open>logrus.Level\<close>, a
  \<^verbatim>\<open>uint32\<close> whose constants count up from \<^verbatim>\<open>PanicLevel = iota\<close>. Both
  constant tables belong to the libraries and are written down here as they are declared
  there. The two conversion functions are those of \<^verbatim>\<open>logs.go\<close>: a Go
  \<^verbatim>\<open>switch\<close> over the cases in the order of the source, followed by the
  fall-through \<^verbatim>\<open>return\<close>.
\<close>

type_synonym Lvl = "8 word"
type_synonym Level = "32 word"

definition DEBUG :: Lvl where "DEBUG = 1"
definition INFO :: Lvl where "INFO = 2"
definition WARN :: Lvl where "WARN = 3"
definition ERROR :: Lvl where "ERROR = 4"
definition OFF :: Lvl where "OFF = 5"

definition PanicLevel :: Level where "PanicLevel = 0"
definition FatalLevel :: Level where "FatalLevel = 1"
definition ErrorLevel :: Level where "ErrorLevel = 2"
definition WarnLevel :: Level where "WarnLevel = 3"
definition InfoLevel :: Level where "InfoLevel = 4"
definition DebugLevel :: Level where "DebugLevel = 5"

definition toLogrusLevel :: "Lvl \<Rightarrow> Level" where
  "toLogrusLevel level =
     (if level = DEBUG then DebugLevel
      else if level = INFO then InfoLevel
      else if level = WARN then WarnLevel
      else if level = ERROR then ErrorLevel
      else InfoLevel)"

definition toEchoLevel :: "Level \<Rightarrow> Lvl" where
  "toEchoLevel level =
     (if level = DebugLevel then DEBUG
      else if level = InfoLevel then INFO
      else if level = WarnLevel then WARN
      else if level = ErrorLevel then ERROR
      else OFF)"

section \<open>The Go side: control flow, pointers, formatting\<close>

text \<open>
  A Go call either returns, or ends the process (\<^verbatim>\<open>os.Exit\<close>), or panics. Every
  operation of the model therefore yields a \<open>flow\<close> together with the world it leaves
  behind, and sequencing (\<open>andThen\<close>) runs the second statement only when the first one
  returned: a statement written after a call that never returns is never run.
\<close>

datatype panic_value = NilPointerDereference | LogPanic string

datatype 'a flow = Returns 'a | Exits int | Panics panic_value

definition andThen ::
  "('w \<Rightarrow> 'a flow \<times> 'w) \<Rightarrow> ('a \<Rightarrow> 'w \<Rightarrow> 'b flow \<times> 'w) \<Rightarrow> 'w \<Rightarrow> 'b flow \<times> 'w" where
  "andThen m f w =
     (case m w of
        (Returns a, w') \<Rightarrow> f a w'
      | (Exits n, w') \<Rightarrow> (Exits n, w')
      | (Panics p, w') \<Rightarrow> (Panics p, w'))"

text \<open>
  Pointers are \<open>nil\<close> or an address into a store of objects. A store is the list of the
  objects allocated so far, an address is an index into it, and allocation appends, so a
  new object never aliases an old one. Reading or writing through \<open>nil\<close> (or through an
  address nothing was allocated at, which Go cannot produce) is the nil-pointer panic.
\<close>

datatype ptr = nil | Addr nat

definition deref :: "'a list \<Rightarrow> ptr \<Rightarrow> 'a option" where
  "deref store p =
     (case p of nil \<Rightarrow> None
      | Addr a \<Rightarrow> if a < length store then Some (store ! a) else None)"

definition assign :: "'a list \<Rightarrow> ptr \<Rightarrow> 'a \<Rightarrow> 'a list" where
  "assign store p v = (case p of nil \<Rightarrow> store | Addr a \<Rightarrow> store[a := v])"

definition alloc :: "'a list \<Rightarrow> 'a \<Rightarrow> ptr \<times> 'a list" where
  "alloc store v = (Addr (length store), store @ [v])"

text \<open>
  \<^verbatim>\<open>fmt.Sprint\<close> and \<^verbatim>\<open>fmt.Sprintf\<close> belong to the Go standard library. The
  adapter only passes arguments through to them, so they are parameters of the model:
  \<open>'v\<close> is the type of the values an \<^verbatim>\<open>interface{}\<close> argument can hold (a
  \<^verbatim>\<open>gommonLog.JSON\<close> map among them), and \<open>of_string\<close> is a Go string held in an
  \<^verbatim>\<open>interface{}\<close>.
\<close>

record 'v fmt =
  Sprint :: "'v list \<Rightarrow> string"
  Sprintf :: "string \<Rightarrow> 'v list \<Rightarrow> string"
  of_string :: "string \<Rightarrow> 'v"

section \<open>The collaborators: logrus, sentry, the redis client\<close>

datatype Writer = Stderr | Stdout | OtherWriter nat

datatype Formatter = TextFormatter | PrefixedTextFormatter bool

record logrus_Logger =
  Logger_Out :: Writer
  Logger_Formatter :: Formatter
  Logger_Level :: Level

record Entry =
  Entry_Logger :: ptr
  Entry_Data :: "string \<rightharpoonup> string"

record log_line =
  line_out :: Writer
  line_level :: Level
  line_data :: "string \<rightharpoonup> string"
  line_message :: string

datatype redis_error = redis_Nil | ReplyError string

record Options =
  opt_Addr :: string
  opt_Password :: string
  opt_DB :: int
  opt_PoolSize :: int
  opt_ReadTimeout :: int

record Client =
  client_opt :: Options

text \<open>
  The structs of \<^verbatim>\<open>logs.go\<close> and \<^verbatim>\<open>redis.go\<close>. A \<^verbatim>\<open>time.Duration\<close> is
  a count of nanoseconds. The client of a cache handle is never written through, so the
  field holds the client itself, \<open>None\<close> for the \<^verbatim>\<open>nil\<close> pointer.
\<close>

record CommonLogger =
  logger :: ptr
  prefix :: string
  requestID :: string

record RedisConfig =
  Host :: string
  Password :: string
  DB :: int
  PoolSize :: int
  ReadTimeout :: int

record redis =
  host :: string
  password :: string
  db :: int
  poolSize :: int
  readTimeout :: int
  client :: "Client option"

text \<open>
  The world: the stores of the loggers, of the logger handles and of the cache handles,
  the package variables of \<^verbatim>\<open>logs\<close>
  (\<^verbatim>\<open>logger\<close>, \<^verbatim>\<open>once\<close>, \<^verbatim>\<open>instance\<close>) and of \<^verbatim>\<open>redis\<close>
  (\<^verbatim>\<open>logger\<close>), and what the collaborators have seen: the lines logrus has written,
  the messages handed to \<^verbatim>\<open>sentry.CaptureMessage\<close> in call order, the tags of
  sentry's current scope, and the cache backend (its string keys, the error, if any,
  with which it answers a client that works with given options, and the value and the
  count that a failed reply about a key carries beside its error). \<open>caller_source\<close> is
  the \<^verbatim>\<open>file:line:func()\<close> string that \<^verbatim>\<open>decorateLog\<close> derives from
  \<^verbatim>\<open>runtime.Caller(2)\<close> (empty when the runtime reports no caller); stack
  introspection itself is outside the embedding.
\<close>

record world =
  loggers :: "logrus_Logger list"
  handles :: "CommonLogger list"
  caches :: "redis list"
  logs_logger :: ptr
  logs_once :: bool
  logs_instance :: ptr
  redis_logger :: ptr
  caller_source :: string
  written :: "log_line list"
  captured :: "string list"
  scope_tags :: "string \<rightharpoonup> string"
  backend_keys :: "string \<rightharpoonup> string"
  backend_fault :: "Options \<Rightarrow> redis_error option"
  fault_value :: "string \<Rightarrow> string"
  fault_count :: "string \<Rightarrow> 64 word"

subsection \<open>logrus\<close>

text \<open>
  \<^verbatim>\<open>logrus.New()\<close> gives a logger that writes to standard error at
  \<^verbatim>\<open>InfoLevel\<close>. An entry writes a line when the logger's level admits the line's
  level (\<^verbatim>\<open>logger.Level >= level\<close>, unsigned). \<^verbatim>\<open>Print\<close> is \<^verbatim>\<open>Info\<close>.
  After logging, \<^verbatim>\<open>Fatal\<close> and \<^verbatim>\<open>Fatalf\<close> call \<^verbatim>\<open>Exit(1)\<close>, which ends the
  process, and \<^verbatim>\<open>Panic\<close> and \<^verbatim>\<open>Panicf\<close> panic: none of the four returns to
  its caller.
\<close>

definition logrus_New :: logrus_Logger where
  "logrus_New =
     \<lparr>Logger_Out = Stderr, Logger_Formatter = TextFormatter, Logger_Level = InfoLevel\<rparr>"

definition WithFields :: "Entry \<Rightarrow> string \<Rightarrow> string \<Rightarrow> Entry" where
  "WithFields e k v = e\<lparr>Entry_Data := (Entry_Data e)(k \<mapsto> v)\<rparr>"

definition Logger_WithFields :: "ptr \<Rightarrow> string \<Rightarrow> string \<Rightarrow> world \<Rightarrow> Entry flow \<times> world" where
  "Logger_WithFields l k v w =
     (case deref (loggers w) l of
        None \<Rightarrow> (Panics NilPointerDereference, w)
      | Some _ \<Rightarrow> (Returns (WithFields \<lparr>Entry_Logger = l, Entry_Data = Map.empty\<rparr> k v), w))"

definition Entry_log :: "Entry \<Rightarrow> Level \<Rightarrow> string \<Rightarrow> world \<Rightarrow> unit flow \<times> world" where
  "Entry_log e level msg w =
     (case deref (loggers w) (Entry_Logger e) of
        None \<Rightarrow> (Panics NilPointerDereference, w)
      | Some l \<Rightarrow>
          if level \<le> Logger_Level l
          then (Returns (),
                w\<lparr>written := written w @
                   [\<lparr>line_out = Logger_Out l, line_level = level,
                     line_data = Entry_Data e, line_message = msg\<rparr>]\<rparr>)
          else (Returns (), w))"

definition Entry_Debug :: "'v fmt \<Rightarrow> Entry \<Rightarrow> 'v list \<Rightarrow> world \<Rightarrow> unit flow \<times> world" where
  "Entry_Debug F e args = Entry_log e DebugLevel (Sprint F args)"

definition Entry_Debugf :: "'v fmt \<Rightarrow> Entry \<Rightarrow> string \<Rightarrow> 'v list \<Rightarrow> world \<Rightarrow> unit flow \<times> world" where
  "Entry_Debugf F e format args = Entry_log e DebugLevel (Sprintf F format args)"

definition Entry_Info :: "'v fmt \<Rightarrow> Entry \<Rightarrow> 'v list \<Rightarrow> world \<Rightarrow> unit flow \<times> world" where
  "Entry_Info F e args = Entry_log e InfoLevel (Sprint F args)"

definition Entry_Infof :: "'v fmt \<Rightarrow> Entry \<Rightarrow> string \<Rightarrow> 'v list \<Rightarrow> world \<Rightarrow> unit flow \<times> world" where
  "Entry_Infof F e format args = Entry_log e InfoLevel (Sprintf F format args)"

definition Entry_Print :: "'v fmt \<Rightarrow> Entry \<Rightarrow> 'v list \<Rightarrow> world \<Rightarrow> unit flow \<times> world" where
  "Entry_Print F e args = Entry_Info F e args"

definition Entry_Printf :: "'v fmt \<Rightarrow> Entry \<Rightarrow> string \<Rightarrow> 'v list \<Rightarrow> world \<Rightarrow> unit flow \<times> world" where
  "Entry_Printf F e format args = Entry_Infof F e format args"

definition Entry_Warn :: "'v fmt \<Rightarrow> Entry \<Rightarrow> 'v list \<Rightarrow> world \<Rightarrow> unit flow \<times> world" where
  "Entry_Warn F e args = Entry_log e WarnLevel (Sprint F args)"

definition Entry_Warnf :: "'v fmt \<Rightarrow> Entry \<Rightarrow> string \<Rightarrow> 'v list \<Rightarrow> world \<Rightarrow> unit flow \<times> world" where
  "Entry_Warnf F e format args = Entry_log e WarnLevel (Sprintf F format args)"

definition Entry_Error :: "'v fmt \<Rightarrow> Entry \<Rightarrow> 'v list \<Rightarrow> world \<Rightarrow> unit flow \<times> world" where
  "Entry_Error F e args = Entry_log e ErrorLevel (Sprint F args)"

definition Entry_Errorf :: "'v fmt \<Rightarrow> Entry \<Rightarrow> string \<Rightarrow> 'v list \<Rightarrow> world \<Rightarrow> unit flow \<times> world" where
  "Entry_Errorf F e format args = Entry_log e ErrorLevel (Sprintf F format args)"

definition Logger_Exit :: "int \<Rightarrow> world \<Rightarrow> unit flow \<times> world" where
  "Logger_Exit code w = (Exits code, w)"

definition Entry_Fatal :: "'v fmt \<Rightarrow> Entry \<Rightarrow> 'v list \<Rightarrow> world \<Rightarrow> unit flow \<times> world" where
  "Entry_Fatal F e args =
     andThen (Entry_log e FatalLevel (Sprint F args)) (\<lambda>_. Logger_Exit 1)"

definition Entry_Fatalf :: "'v fmt \<Rightarrow> Entry \<Rightarrow> string \<Rightarrow> 'v list \<Rightarrow> world \<Rightarrow> unit flow \<times> world" where
  "Entry_Fatalf F e format args =
     andThen (Entry_log e FatalLevel (Sprintf F format args)) (\<lambda>_. Logger_Exit 1)"

definition Entry_Panic :: "'v fmt \<Rightarrow> Entry \<Rightarrow> 'v list \<Rightarrow> world \<Rightarrow> unit flow \<times> world" where
  "Entry_Panic F e args =
     andThen (Entry_log e PanicLevel (Sprint F args))
       (\<lambda>_ w. (Panics (LogPanic (Sprint F args)), w))"

definition Entry_Panicf :: "'v fmt \<Rightarrow> Entry \<Rightarrow> string \<Rightarrow> 'v list \<Rightarrow> world \<Rightarrow> unit flow \<times> world" where
  "Entry_Panicf F e format args =
     andThen (Entry_log e PanicLevel (Sprintf F format args))
       (\<lambda>_ w. (Panics (LogPanic (Sprintf F format args)), w))"

subsection \<open>sentry\<close>

definition CaptureMessage :: "string \<Rightarrow> world \<Rightarrow> unit flow \<times> world" where
  "CaptureMessage message w = (Returns (), w\<lparr>captured := captured w @ [message]\<rparr>)"

definition SetTag :: "string \<Rightarrow> string \<Rightarrow> (string \<rightharpoonup> string) \<Rightarrow> (string \<rightharpoonup> string)" where
  "SetTag key v scope = scope(key \<mapsto> v)"

definition ConfigureScope ::
  "((string \<rightharpoonup> string) \<Rightarrow> (string \<rightharpoonup> string)) \<Rightarrow> world \<Rightarrow> unit flow \<times> world" where
  "ConfigureScope f w = (Returns (), w\<lparr>scope_tags := f (scope_tags w)\<rparr>)"

subsection \<open>The redis client\<close>

text \<open>
  A client holds the options it works with. The constructor of the client library
  rewrites the options it is handed before it keeps them (an empty address becomes the
  default address, for one), so the model does not fix it: \<^verbatim>\<open>InitClient\<close> takes the
  constructor as the parameter \<open>NewClient\<close>.

  The reply to a command is a value together with an error, \<open>None\<close> for \<^verbatim>\<open>nil\<close>,
  and the two are independent: a reply that carries an error can carry any value beside
  it. A command reaches the backend or fails with the backend's error, and then its
  reply carries \<open>fault_value\<close> or \<open>fault_count\<close>. \<^verbatim>\<open>Get\<close> on a key the backend does
  not hold answers with the error \<^verbatim>\<open>redis.Nil\<close> and the empty string; \<^verbatim>\<open>Del\<close>
  answers with the number of keys it removed, which is 0 for a key the backend does not
  hold, and that is no error.
\<close>

definition Second :: int where
  "Second = 1000000000"

definition Client_Ping :: "Client \<Rightarrow> world \<Rightarrow> (string \<times> redis_error option) flow \<times> world" where
  "Client_Ping cl w =
     (case backend_fault w (client_opt cl) of
        Some e \<Rightarrow> (Returns ('''', Some e), w)
      | None \<Rightarrow> (Returns (''PONG'', None), w))"

definition Client_Get ::
  "Client \<Rightarrow> string \<Rightarrow> world \<Rightarrow> (string \<times> redis_error option) flow \<times> world" where
  "Client_Get cl key w =
     (case backend_fault w (client_opt cl) of
        Some e \<Rightarrow> (Returns (fault_value w key, Some e), w)
      | None \<Rightarrow>
          (case backend_keys w key of
             None \<Rightarrow> (Returns ('''', Some redis_Nil), w)
           | Some v \<Rightarrow> (Returns (v, None), w)))"

definition Client_Del ::
  "Client \<Rightarrow> string \<Rightarrow> world \<Rightarrow> (64 word \<times> redis_error option) flow \<times> world" where
  "Client_Del cl key w =
     (case backend_fault w (client_opt cl) of
        Some e \<Rightarrow> (Returns (fault_count w key, Some e), w)
      | None \<Rightarrow>
          (case backend_keys w key of
             None \<Rightarrow> (Returns (0, None), w)
           | Some v \<Rightarrow> (Returns (1, None), w\<lparr>backend_keys := (backend_keys w)(key := None)\<rparr>)))"

section \<open>Reading and writing through the pointers\<close>

definition return :: "'a \<Rightarrow> world \<Rightarrow> 'a flow \<times> world" where
  "return a w = (Returns a, w)"

definition get_Logger :: "ptr \<Rightarrow> world \<Rightarrow> logrus_Logger flow \<times> world" where
  "get_Logger l w =
     (case deref (loggers w) l of
        None \<Rightarrow> (Panics NilPointerDereference, w)
      | Some v \<Rightarrow> (Returns v, w))"

definition set_Logger :: "ptr \<Rightarrow> (logrus_Logger \<Rightarrow> logrus_Logger) \<Rightarrow> world \<Rightarrow> unit flow \<times> world" where
  "set_Logger l f w =
     (case deref (loggers w) l of
        None \<Rightarrow> (Panics NilPointerDereference, w)
      | Some v \<Rightarrow> (Returns (), w\<lparr>loggers := assign (loggers w) l (f v)\<rparr>))"

definition get_handle :: "ptr \<Rightarrow> world \<Rightarrow> CommonLogger flow \<times> world" where
  "get_handle q w =
     (case deref (handles w) q of
        None \<Rightarrow> (Panics NilPointerDereference, w)
      | Some v \<Rightarrow> (Returns v, w))"

definition set_handle :: "ptr \<Rightarrow> (CommonLogger \<Rightarrow> CommonLogger) \<Rightarrow> world \<Rightarrow> unit flow \<times> world" where
  "set_handle q f w =
     (case deref (handles w) q of
        None \<Rightarrow> (Panics NilPointerDereference, w)
      | Some v \<Rightarrow> (Returns (), w\<lparr>handles := assign (handles w) q (f v)\<rparr>))"

definition get_redis :: "ptr \<Rightarrow> world \<Rightarrow> redis flow \<times> world" where
  "get_redis r w =
     (case deref (caches w) r of
        None \<Rightarrow> (Panics NilPointerDereference, w)
      | Some v \<Rightarrow> (Returns v, w))"

definition set_redis :: "ptr \<Rightarrow> (redis \<Rightarrow> redis) \<Rightarrow> world \<Rightarrow> unit flow \<times> world" where
  "set_redis r f w =
     (case deref (caches w) r of
        None \<Rightarrow> (Panics NilPointerDereference, w)
      | Some v \<Rightarrow> (Returns (), w\<lparr>caches := assign (caches w) r (f v)\<rparr>))"

section \<open>Package logs\<close>

subsection \<open>NewCommonLog\<close>

text \<open>
  \<^verbatim>\<open>once.Do(f)\<close> runs \<open>f\<close> unless the flag is set and sets the flag when \<open>f\<close> is
  over. The variadic \<^verbatim>\<open>prefix ...string\<close> is the list of the arguments passed, so
  \<^verbatim>\<open>len(prefix) > 0\<close> asks whether an argument was passed at all.
  \<^verbatim>\<open>strings.EqualFold\<close> is the standard library's comparison under Unicode case
  folding; the model takes it as the parameter \<open>EqualFold\<close>.
\<close>

definition once_Do :: "(world \<Rightarrow> unit flow \<times> world) \<Rightarrow> world \<Rightarrow> unit flow \<times> world" where
  "once_Do f w =
     (if logs_once w then (Returns (), w)
      else (case f w of (r, w') \<Rightarrow> (r, w'\<lparr>logs_once := True\<rparr>)))"

definition once_body :: "string list \<Rightarrow> world \<Rightarrow> unit flow \<times> world" where
  "once_body prefix_arg =
     andThen (\<lambda>w. case alloc (loggers w) logrus_New of
                     (l, ls) \<Rightarrow> (Returns (), w\<lparr>loggers := ls, logs_logger := l\<rparr>)) (\<lambda>_.
     andThen (\<lambda>w. set_Logger (logs_logger w)
                     (\<lambda>l. l\<lparr>Logger_Formatter := PrefixedTextFormatter True\<rparr>) w) (\<lambda>_.
     andThen (\<lambda>w. case alloc (handles w)
                          \<lparr>logger = logs_logger w, prefix = '''', requestID = ''''\<rparr> of
                     (q, hs) \<Rightarrow> (Returns (), w\<lparr>handles := hs, logs_instance := q\<rparr>)) (\<lambda>_ w.
     if 0 < length prefix_arg
     then set_handle (logs_instance w) (\<lambda>h. h\<lparr>prefix := prefix_arg ! 0\<rparr>) w
     else (Returns (), w))))"

definition NewCommonLog ::
  "(string \<Rightarrow> string \<Rightarrow> bool) \<Rightarrow> string list \<Rightarrow> world \<Rightarrow> ptr flow \<times> world" where
  "NewCommonLog EqualFold prefix_arg =
     andThen (once_Do (once_body prefix_arg)) (\<lambda>_.
     andThen (\<lambda>w.
       if 0 < length prefix_arg
       then andThen (get_handle (logs_instance w)) (\<lambda>h w.
              if \<not> EqualFold (prefix h) (prefix_arg ! 0)
              then set_handle (logs_instance w) (\<lambda>h. h\<lparr>prefix := prefix_arg ! 0\<rparr>) w
              else (Returns (), w)) w
       else (Returns (), w)) (\<lambda>_ w.
     (Returns (logs_instance w), w)))"

text \<open>
  A run of calls of \<^verbatim>\<open>NewCommonLog\<close>, one argument list per call, from anywhere in
  the process: the results in call order, and the world after the last call.
\<close>

fun NewCommonLog_calls ::
  "(string \<Rightarrow> string \<Rightarrow> bool) \<Rightarrow> string list list \<Rightarrow> world \<Rightarrow> ptr flow list \<times> world" where
  "NewCommonLog_calls EqualFold [] w = ([], w)"
| "NewCommonLog_calls EqualFold (prefix_arg # rest) w =
     (case NewCommonLog EqualFold prefix_arg w of
        (r, w') \<Rightarrow>
          (case NewCommonLog_calls EqualFold rest w' of (rs, w'') \<Rightarrow> (r # rs, w'')))"

text \<open>
  \<open>singleton_at w q\<close>: the one-time initialisation is over and the package variable
  \<^verbatim>\<open>instance\<close> points to the handle at \<open>q\<close>.
\<close>

definition singleton_at :: "world \<Rightarrow> ptr \<Rightarrow> bool" where
  "singleton_at w q \<longleftrightarrow> logs_once w \<and> logs_instance w = q \<and> deref (handles w) q \<noteq> None"

text \<open>
  The update rule of the stored prefix in the words of the specification: a later call
  overwrites the stored prefix when a non-empty prefix is supplied that differs from the
  stored one, case-insensitively. It is stated here to be compared with the code.
\<close>

definition spec_overwrites :: "(string \<Rightarrow> string \<Rightarrow> bool) \<Rightarrow> string \<Rightarrow> string list \<Rightarrow> bool" where
  "spec_overwrites EqualFold stored prefix_arg \<longleftrightarrow>
     0 < length prefix_arg \<and> prefix_arg ! 0 \<noteq> '''' \<and> \<not> EqualFold stored (prefix_arg ! 0)"

subsection \<open>decorateLog and the accessors\<close>

definition decorateLog :: "ptr \<Rightarrow> world \<Rightarrow> Entry flow \<times> world" where
  "decorateLog q =
     andThen (\<lambda>w. (Returns (caller_source w), w)) (\<lambda>source.
     andThen (get_handle q) (\<lambda>h.
     andThen (Logger_WithFields (logger h) ''source'' source) (\<lambda>e.
     andThen (return (if prefix h \<noteq> '''' then WithFields e ''prefix'' (prefix h) else e)) (\<lambda>e.
     andThen (return (if requestID h \<noteq> '''' then WithFields e ''requestID'' (requestID h) else e)) (\<lambda>e.
     return e)))))"

definition Output :: "ptr \<Rightarrow> world \<Rightarrow> Writer flow \<times> world" where
  "Output q =
     andThen (get_handle q) (\<lambda>h.
     andThen (get_Logger (logger h)) (\<lambda>l.
     return (Logger_Out l)))"

definition SetOutput :: "ptr \<Rightarrow> Writer \<Rightarrow> world \<Rightarrow> unit flow \<times> world" where
  "SetOutput q wr = return ()"

definition Prefix :: "ptr \<Rightarrow> world \<Rightarrow> string flow \<times> world" where
  "Prefix q = andThen (get_handle q) (\<lambda>h. return (prefix h))"

definition SetPrefix :: "ptr \<Rightarrow> string \<Rightarrow> world \<Rightarrow> unit flow \<times> world" where
  "SetPrefix q p = set_handle q (\<lambda>h. h\<lparr>prefix := p\<rparr>)"

definition Level :: "ptr \<Rightarrow> world \<Rightarrow> Lvl flow \<times> world" where
  "Level q =
     andThen (get_handle q) (\<lambda>h.
     andThen (get_Logger (logger h)) (\<lambda>l.
     return (toEchoLevel (Logger_Level l))))"

definition SetLevel :: "ptr \<Rightarrow> Lvl \<Rightarrow> world \<Rightarrow> unit flow \<times> world" where
  "SetLevel q v =
     andThen (get_handle q) (\<lambda>h.
     set_Logger (logger h) (\<lambda>l. l\<lparr>Logger_Level := toLogrusLevel v\<rparr>))"

definition SetHeader :: "ptr \<Rightarrow> string \<Rightarrow> world \<Rightarrow> unit flow \<times> world" where
  "SetHeader q h = return ()"

text \<open>
  \<open>handle_ok w q\<close>: \<open>q\<close> points to a handle whose logger is set, as every pointer
  that \<^verbatim>\<open>NewCommonLog\<close> returns does.
\<close>

definition handle_ok :: "world \<Rightarrow> ptr \<Rightarrow> bool" where
  "handle_ok w q =
     (case deref (handles w) q of
        None \<Rightarrow> False
      | Some h \<Rightarrow> deref (loggers w) (logger h) \<noteq> None)"

subsection \<open>The logging methods\<close>

definition sentry :: "ptr \<Rightarrow> string \<Rightarrow> world \<Rightarrow> unit flow \<times> world" where
  "sentry q message = CaptureMessage message"

definition Print :: "'v fmt \<Rightarrow> ptr \<Rightarrow> 'v list \<Rightarrow> world \<Rightarrow> unit flow \<times> world" where
  "Print F q i = andThen (decorateLog q) (\<lambda>e. Entry_Print F e i)"

definition Printf :: "'v fmt \<Rightarrow> ptr \<Rightarrow> string \<Rightarrow> 'v list \<Rightarrow> world \<Rightarrow> unit flow \<times> world" where
  "Printf F q format args = andThen (decorateLog q) (\<lambda>e. Entry_Printf F e format args)"

definition Printj :: "'v fmt \<Rightarrow> ptr \<Rightarrow> 'v \<Rightarrow> world \<Rightarrow> unit flow \<times> world" where
  "Printj F q j = andThen (decorateLog q) (\<lambda>e. Entry_Printf F e ''%+v'' [j])"

definition Debug :: "'v fmt \<Rightarrow> ptr \<Rightarrow> 'v list \<Rightarrow> world \<Rightarrow> unit flow \<times> world" where
  "Debug F q i = andThen (decorateLog q) (\<lambda>e. Entry_Debug F e i)"

definition Debugf :: "'v fmt \<Rightarrow> ptr \<Rightarrow> string \<Rightarrow> 'v list \<Rightarrow> world \<Rightarrow> unit flow \<times> world" where
  "Debugf F q format args = andThen (decorateLog q) (\<lambda>e. Entry_Debugf F e format args)"

definition Debugj :: "'v fmt \<Rightarrow> ptr \<Rightarrow> 'v \<Rightarrow> world \<Rightarrow> unit flow \<times> world" where
  "Debugj F q j = andThen (decorateLog q) (\<lambda>e. Entry_Debugf F e ''%+v'' [j])"

definition Info :: "'v fmt \<Rightarrow> ptr \<Rightarrow> 'v list \<Rightarrow> world \<Rightarrow> unit flow \<times> world" where
  "Info F q i = andThen (decorateLog q) (\<lambda>e. Entry_Info F e i)"

definition Infof :: "'v fmt \<Rightarrow> ptr \<Rightarrow> string \<Rightarrow> 'v list \<Rightarrow> world \<Rightarrow> unit flow \<times> world" where
  "Infof F q format args = andThen (decorateLog q) (\<lambda>e. Entry_Infof F e format args)"

definition Infoj :: "'v fmt \<Rightarrow> ptr \<Rightarrow> 'v \<Rightarrow> world \<Rightarrow> unit flow \<times> world" where
  "Infoj F q j = andThen (decorateLog q) (\<lambda>e. Entry_Infof F e ''%+v'' [j])"

definition Warn :: "'v fmt \<Rightarrow> ptr \<Rightarrow> 'v list \<Rightarrow> world \<Rightarrow> unit flow \<times> world" where
  "Warn F q i = andThen (decorateLog q) (\<lambda>e. Entry_Warn F e i)"

definition Warnf :: "'v fmt \<Rightarrow> ptr \<Rightarrow> string \<Rightarrow> 'v list \<Rightarrow> world \<Rightarrow> unit flow \<times> world" where
  "Warnf F q format args = andThen (decorateLog q) (\<lambda>e. Entry_Warnf F e format args)"

definition Warnj :: "'v fmt \<Rightarrow> ptr \<Rightarrow> 'v \<Rightarrow> world \<Rightarrow> unit flow \<times> world" where
  "Warnj F q j = andThen (decorateLog q) (\<lambda>e. Entry_Warnf F e ''%+v'' [j])"

definition Error :: "'v fmt \<Rightarrow> ptr \<Rightarrow> 'v list \<Rightarrow> world \<Rightarrow> unit flow \<times> world" where
  "Error F q i =
     andThen (decorateLog q) (\<lambda>e.
     andThen (Entry_Error F e i) (\<lambda>_.
     sentry q (Sprintf F ''%+v'' i)))"

definition Errorf :: "'v fmt \<Rightarrow> ptr \<Rightarrow> string \<Rightarrow> 'v list \<Rightarrow> world \<Rightarrow> unit flow \<times> world" where
  "Errorf F q format args =
     andThen (decorateLog q) (\<lambda>e.
     andThen (Entry_Errorf F e format args) (\<lambda>_.
     sentry q (Sprintf F format args)))"

definition Errorj :: "'v fmt \<Rightarrow> ptr \<Rightarrow> 'v \<Rightarrow> world \<Rightarrow> unit flow \<times> world" where
  "Errorj F q j =
     andThen (decorateLog q) (\<lambda>e.
     andThen (Entry_Errorf F e ''%+v'' [j]) (\<lambda>_.
     sentry q (Sprintf F ''%+v'' [j])))"

definition Fatal :: "'v fmt \<Rightarrow> ptr \<Rightarrow> 'v list \<Rightarrow> world \<Rightarrow> unit flow \<times> world" where
  "Fatal F q i =
     andThen (decorateLog q) (\<lambda>e.
     andThen (Entry_Fatal F e i) (\<lambda>_.
     sentry q (Sprintf F ''%+v'' i)))"

definition Fatalj :: "'v fmt \<Rightarrow> ptr \<Rightarrow> 'v \<Rightarrow> world \<Rightarrow> unit flow \<times> world" where
  "Fatalj F q j =
     andThen (decorateLog q) (\<lambda>e.
     andThen (Entry_Fatalf F e ''%+v'' [j]) (\<lambda>_.
     sentry q (Sprintf F ''%+v'' [j])))"

definition Fatalf :: "'v fmt \<Rightarrow> ptr \<Rightarrow> string \<Rightarrow> 'v list \<Rightarrow> world \<Rightarrow> unit flow \<times> world" where
  "Fatalf F q format args =
     andThen (decorateLog q) (\<lambda>e.
     andThen (Entry_Fatalf F e format args) (\<lambda>_.
     sentry q (Sprintf F format args)))"

definition Panic :: "'v fmt \<Rightarrow> ptr \<Rightarrow> 'v list \<Rightarrow> world \<Rightarrow> unit flow \<times> world" where
  "Panic F q i =
     andThen (decorateLog q) (\<lambda>e.
     andThen (Entry_Panic F e i) (\<lambda>_.
     sentry q (Sprintf F ''%+v'' i)))"

definition Panicj :: "'v fmt \<Rightarrow> ptr \<Rightarrow> 'v \<Rightarrow> world \<Rightarrow> unit flow \<times> world" where
  "Panicj F q j =
     andThen (decorateLog q) (\<lambda>e.
     andThen (Entry_Panicf F e ''%+v'' [j]) (\<lambda>_.
     sentry q (Sprintf F ''%+v'' [j])))"

definition Panicf :: "'v fmt \<Rightarrow> ptr \<Rightarrow> string \<Rightarrow> 'v list \<Rightarrow> world \<Rightarrow> unit flow \<times> world" where
  "Panicf F q format args =
     andThen (decorateLog q) (\<lambda>e.
     andThen (Entry_Panicf F e format args) (\<lambda>_.
     sentry q (Sprintf F format args)))"

subsection \<open>The request-id middleware\<close>

text \<open>
  An inbound request carries its headers as a map from the canonical header name to the
  list of its values. \<^verbatim>\<open>Header.Get\<close> gives the first value of a name, and the
  empty string when the name has no value; \<^verbatim>\<open>echo.HeaderXRequestID\<close> is already in
  canonical form. A handler works on the context and the world and returns a Go
  \<^verbatim>\<open>error\<close>, \<open>None\<close> for \<^verbatim>\<open>nil\<close>.
\<close>

record Request =
  Header :: "string \<rightharpoonup> string list"

record Context =
  Request :: Request

type_synonym 'e HandlerFunc = "Context \<Rightarrow> world \<Rightarrow> 'e option flow \<times> world"

definition HeaderXRequestID :: string where
  "HeaderXRequestID = ''X-Request-Id''"

definition Header_Get :: "(string \<rightharpoonup> string list) \<Rightarrow> string \<Rightarrow> string" where
  "Header_Get h key =
     (case h key of None \<Rightarrow> '''' | Some [] \<Rightarrow> '''' | Some (v # _) \<Rightarrow> v)"

definition MiddlewareLoggerRequestID :: "ptr \<Rightarrow> 'e HandlerFunc \<Rightarrow> 'e HandlerFunc" where
  "MiddlewareLoggerRequestID q next c =
     (let requestId = Header_Get (Header (Request c)) HeaderXRequestID in
      andThen (set_handle q (\<lambda>h. h\<lparr>requestID := requestId\<rparr>)) (\<lambda>_.
      andThen (ConfigureScope (SetTag ''x-request-id'' requestId)) (\<lambda>_.
      next c)))"

section \<open>Package redis\<close>

text \<open>
  \<^verbatim>\<open>SetRedisValue\<close> stores a payload that the backend drops after a time to live;
  the embedding has no clock and leaves that operation out. The options literal of
  \<^verbatim>\<open>InitClient\<close> names \<^verbatim>\<open>Addr\<close> and \<^verbatim>\<open>Password\<close>, so the other fields start
  at their zero values; \<open>redisOpt\<close> is the block of \<^verbatim>\<open>InitClient\<close> that builds the
  options, from the literal to the last defaulting \<^verbatim>\<open>if\<close>.
\<close>

definition NewRedis :: "RedisConfig \<Rightarrow> world \<Rightarrow> ptr flow \<times> world" where
  "NewRedis config w =
     (case alloc (caches w)
             \<lparr>host = Host config, password = Password config, db = DB config,
              poolSize = PoolSize config, readTimeout = ReadTimeout config,
              client = None\<rparr> of
        (r, cs) \<Rightarrow> (Returns r, w\<lparr>caches := cs\<rparr>))"

definition redisOpt :: "redis \<Rightarrow> Options" where
  "redisOpt r =
     (let opt = \<lparr>opt_Addr = host r, opt_Password = password r, opt_DB = 0,
                 opt_PoolSize = 0, opt_ReadTimeout = 0\<rparr>;
          opt = (if db r \<noteq> 0 then opt\<lparr>opt_DB := db r\<rparr> else opt\<lparr>opt_DB := 0\<rparr>);
          opt = (if poolSize r \<noteq> 0 then opt\<lparr>opt_PoolSize := poolSize r\<rparr>
                 else opt\<lparr>opt_PoolSize := 64\<rparr>);
          opt = (if readTimeout r \<noteq> 0 then opt\<lparr>opt_ReadTimeout := readTimeout r\<rparr>
                 else opt\<lparr>opt_ReadTimeout := 10 * Second\<rparr>)
      in opt)"

definition InitClient ::
  "'v fmt \<Rightarrow> (Options \<Rightarrow> Client) \<Rightarrow> ptr \<Rightarrow> world \<Rightarrow> redis_error option flow \<times> world" where
  "InitClient F NewClient r =
     andThen (\<lambda>w. Info F (redis_logger w) [of_string F ''Start open redis connection...''] w) (\<lambda>_.
     andThen (get_redis r) (\<lambda>h.
     andThen (return (NewClient (redisOpt h))) (\<lambda>cl.
     andThen (Client_Ping cl) (\<lambda>(pong, err).
     if err \<noteq> None then return err
     else andThen (set_redis r (\<lambda>h. h\<lparr>client := Some cl\<rparr>)) (\<lambda>_.
          return None)))))"

definition GetRedisValue :: "ptr \<Rightarrow> string \<Rightarrow> world \<Rightarrow> string flow \<times> world" where
  "GetRedisValue r key =
     andThen (get_redis r) (\<lambda>h.
     case client h of
       None \<Rightarrow> (\<lambda>w. (Panics NilPointerDereference, w))
     | Some cl \<Rightarrow>
         andThen (Client_Get cl key) (\<lambda>(val, err).
         if err \<noteq> None then return '''' else return val))"

definition DeleteRedisValue :: "ptr \<Rightarrow> string \<Rightarrow> world \<Rightarrow> 64 word flow \<times> world" where
  "DeleteRedisValue r key =
     andThen (get_redis r) (\<lambda>h.
     case client h of
       None \<Rightarrow> (\<lambda>w. (Panics NilPointerDereference, w))
     | Some cl \<Rightarrow>
         andThen (Client_Del cl key) (\<lambda>(val, err).
         if err \<noteq> None then return 0 else return val))"

definition GetClient :: "ptr \<Rightarrow> world \<Rightarrow> Client option flow \<times> world" where
  "GetClient r = andThen (get_redis r) (\<lambda>h. return (client h))"

section \<open>Concrete worlds for the examples\<close>

text \<open>
  \<open>world0\<close> is the world before anything ran: empty stores, \<^verbatim>\<open>nil\<close> package
  variables, a sound and empty backend. \<open>redis_init\<close> is the initialiser of the package
  variable of \<^verbatim>\<open>redis.go\<close>, \<^verbatim>\<open>logger = logs.NewCommonLog()\<close>. \<open>ascii_EqualFold\<close>
  is \<^verbatim>\<open>strings.EqualFold\<close> on ASCII strings, where case folding only pairs a capital
  letter with its small letter. \<open>plain_fmt\<close> renders string operands by writing them one
  after the other: what \<^verbatim>\<open>fmt.Sprint\<close> does with strings, and what
  \<^verbatim>\<open>fmt.Sprintf\<close> does at the one format the examples use, \<^verbatim>\<open>%+v\<close> with a single
  operand.
\<close>

definition world0 :: world where
  "world0 =
     \<lparr>loggers = [], handles = [], caches = [], logs_logger = nil, logs_once = False,
      logs_instance = nil, redis_logger = nil, caller_source = ''main.go:10:main()'',
      written = [], captured = [], scope_tags = Map.empty, backend_keys = Map.empty,
      backend_fault = (\<lambda>_. None), fault_value = (\<lambda>_. ''''), fault_count = (\<lambda>_. 0)\<rparr>"

definition redis_init :: "(string \<Rightarrow> string \<Rightarrow> bool) \<Rightarrow> world \<Rightarrow> unit flow \<times> world" where
  "redis_init EqualFold =
     andThen (NewCommonLog EqualFold []) (\<lambda>l w. (Returns (), w\<lparr>redis_logger := l\<rparr>))"

definition ascii_lower :: "char \<Rightarrow> char" where
  "ascii_lower c =
     (case map_of (zip ''ABCDEFGHIJKLMNOPQRSTUVWXYZ'' ''abcdefghijklmnopqrstuvwxyz'') c of
        Some d \<Rightarrow> d
      | None \<Rightarrow> c)"

definition ascii_EqualFold :: "string \<Rightarrow> string \<Rightarrow> bool" where
  "ascii_EqualFold s t \<longleftrightarrow> map ascii_lower s = map ascii_lower t"

definition plain_fmt :: "string fmt" where
  "plain_fmt = \<lparr>Sprint = concat, Sprintf = (\<lambda>format args. concat args), of_string = id\<rparr>"

definition ready_world :: world where
  "ready_world = snd (redis_init ascii_EqualFold world0)"

definition example_config :: RedisConfig where
  "example_config =
     \<lparr>Host = ''localhost:6379'', Password = ''secret'', DB = 0, PoolSize = 0, ReadTimeout = 0\<rparr>"

definition cache_world :: world where
  "cache_world = snd (NewRedis example_config ready_world)"

definition down_world :: world where
  "down_world = cache_world\<lparr>backend_fault := (\<lambda>_. Some (ReplyError ''connection refused''))\<rparr>"

definition svc_world :: world where
  "svc_world = snd (NewCommonLog ascii_EqualFold [''svc''] world0)"

text \<open>
  For the middleware: a request that carries \<^verbatim>\<open>X-Request-Id: abc-123\<close>, and a wrapped
  handler that looks at what it finds when it runs. It returns the error \<open>seen\<close> when
  the handle at address 0 holds the request id \<open>abc-123\<close> and the scope carries the tag
  \<open>x-request-id = abc-123\<close>, and \<^verbatim>\<open>nil\<close> otherwise.
\<close>

definition example_context :: Context where
  "example_context =
     \<lparr>Request = \<lparr>Header = [''X-Request-Id'' \<mapsto> [''abc-123'']]\<rparr>\<rparr>"

definition probe_handler :: "string HandlerFunc" where
  "probe_handler c w =
     (case deref (handles w) (Addr 0) of
        None \<Rightarrow> (Returns None, w)
      | Some h \<Rightarrow>
          if requestID h = ''abc-123'' \<and> scope_tags w ''x-request-id'' = Some ''abc-123''
          then (Returns (Some ''seen''), w)
          else (Returns None, w))"

text \<open>
  \<open>library_NewClient\<close>: a constructor for the examples. On the five fields of the model
  it rewrites the options as the client library does, on a machine with \<open>numCPU\<close>
  processors: an empty address becomes \<^verbatim>\<open>localhost:6379\<close>, a pool size of 0 becomes
  ten connections per processor, a read timeout of -1 becomes 0 (no timeout) and a read
  timeout of 0 becomes three seconds; password and database index stay.
\<close>

definition init_Options :: "int \<Rightarrow> Options \<Rightarrow> Options" where
  "init_Options numCPU opt =
     (let opt = (if opt_Addr opt = '''' then opt\<lparr>opt_Addr := ''localhost:6379''\<rparr> else opt);
          opt = (if opt_PoolSize opt = 0 then opt\<lparr>opt_PoolSize := 10 * numCPU\<rparr> else opt);
          opt = (if opt_ReadTimeout opt = - 1 then opt\<lparr>opt_ReadTimeout := 0\<rparr>
                 else if opt_ReadTimeout opt = 0 then opt\<lparr>opt_ReadTimeout := 3 * Second\<rparr>
                 else opt)
      in opt)"

definition library_NewClient :: "int \<Rightarrow> Options \<Rightarrow> Client" where
  "library_NewClient numCPU opt = \<lparr>client_opt = init_Options numCPU opt\<rparr>"

text \<open>
  \<open>served_world\<close>: the cache handle of \<open>cache_world\<close> after a successful
  \<^verbatim>\<open>InitClient\<close>, with the key \<open>k\<close> holding \<open>v\<close> in the backend. \<open>failing_world\<close>:
  the same, with a backend that answers every command with an error, in a reply that
  carries the value \<open>partial\<close> or the count 7 beside the error.
\<close>

definition served_world :: world where
  "served_world =
     (snd (InitClient plain_fmt (library_NewClient 4) (Addr 0) cache_world))
       \<lparr>backend_keys := [''k'' \<mapsto> ''v'']\<rparr>"

definition failing_world :: world where
  "failing_world =
     served_world\<lparr>backend_fault := (\<lambda>_. Some (ReplyError ''i/o timeout'')),
       fault_value := (\<lambda>_. ''partial''), fault_count := (\<lambda>_. 7)\<rparr>"

section \<open>Basic facts\<close>

lemmas Lvl_defs = DEBUG_def INFO_def WARN_def ERROR_def OFF_def

lemmas Level_defs =
  PanicLevel_def FatalLevel_def ErrorLevel_def WarnLevel_def InfoLevel_def DebugLevel_def

lemmas flow_defs = andThen_def return_def

lemmas ptr_defs =
  get_handle_def set_handle_def get_Logger_def set_Logger_def get_redis_def set_redis_def

lemma deref_assign_same:
  "deref store p = Some v \<Longrightarrow> deref (assign store p v') p = Some v'"
  by (auto simp: deref_def assign_def split: ptr.splits if_splits)

lemma deref_assign_other:
  "p \<noteq> p' \<Longrightarrow> deref (assign store p v') p' = deref store p'"
  by (cases p; cases p'; simp add: deref_def assign_def)

lemma deref_fresh:
  "deref store (Addr (length store)) = None"
  by (simp add: deref_def)

lemma deref_append_new:
  "deref (store @ [v]) (Addr (length store)) = Some v"
  by (simp add: deref_def)

lemma assign_append_new:
  "assign (store @ [v]) (Addr (length store)) v' = store @ [v']"
  by (simp add: assign_def)

lemma assign_same:
  "deref store p = Some v \<Longrightarrow> assign store p v = store"
  by (auto simp: deref_def assign_def split: ptr.splits if_splits)

section \<open>The level scales\<close>

lemma toEchoLevel_toLogrusLevel:
  "toEchoLevel (toLogrusLevel v) = (if v \<in> {DEBUG, INFO, WARN, ERROR} then v else INFO)"
  by (simp add: toEchoLevel_def toLogrusLevel_def Lvl_defs Level_defs)

text \<open>
  C8. Outward, from the logger's own level to the framework's level (\<open>toEchoLevel\<close>):
  debug, info, warn and error go to their counterparts and every other level goes to
  \<open>OFF\<close>. Inward, from the framework's level to the logger's (\<open>toLogrusLevel\<close>): debug,
  info, warn and error go to their counterparts and every other level goes to info.
\<close>

theorem level_conversion_maps:
  "toEchoLevel DebugLevel = DEBUG \<and> toEchoLevel InfoLevel = INFO \<and>
   toEchoLevel WarnLevel = WARN \<and> toEchoLevel ErrorLevel = ERROR \<and>
   (\<forall>l. l \<notin> {DebugLevel, InfoLevel, WarnLevel, ErrorLevel} \<longrightarrow> toEchoLevel l = OFF) \<and>
   toLogrusLevel DEBUG = DebugLevel \<and> toLogrusLevel INFO = InfoLevel \<and>
   toLogrusLevel WARN = WarnLevel \<and> toLogrusLevel ERROR = ErrorLevel \<and>
   (\<forall>v. v \<notin> {DEBUG, INFO, WARN, ERROR} \<longrightarrow> toLogrusLevel v = InfoLevel)"
  by (simp add: toEchoLevel_def toLogrusLevel_def Lvl_defs Level_defs)

theorem level_conversion_maps_witness:
  "PanicLevel \<notin> {DebugLevel, InfoLevel, WarnLevel, ErrorLevel} \<and> toEchoLevel PanicLevel = OFF \<and>
   OFF \<notin> {DEBUG, INFO, WARN, ERROR} \<and> toLogrusLevel OFF = InfoLevel"
proof -
  have a: "PanicLevel \<notin> {DebugLevel, InfoLevel, WarnLevel, ErrorLevel}"
    by (simp add: Level_defs)
  have b: "OFF \<notin> {DEBUG, INFO, WARN, ERROR}"
    by (simp add: Lvl_defs)
  from level_conversion_maps a have "toEchoLevel PanicLevel = OFF" by blast
  moreover from level_conversion_maps b have "toLogrusLevel OFF = InfoLevel" by blast
  ultimately show ?thesis using a b by blast
qed

section \<open>The singleton\<close>

lemma once_body_first:
  "once_body prefix_arg w =
     (Returns (),
      w\<lparr>loggers := loggers w @ [logrus_New\<lparr>Logger_Formatter := PrefixedTextFormatter True\<rparr>],
        logs_logger := Addr (length (loggers w)),
        handles := handles w @
          [\<lparr>logger = Addr (length (loggers w)),
            prefix = (if 0 < length prefix_arg then prefix_arg ! 0 else ''''),
            requestID = ''''\<rparr>],
        logs_instance := Addr (length (handles w))\<rparr>)"
  by (simp add: once_body_def andThen_def alloc_def set_Logger_def set_handle_def
      deref_append_new assign_append_new)

lemma NewCommonLog_first:
  assumes "\<not> logs_once w"
  shows "NewCommonLog EqualFold prefix_arg w =
     (Returns (Addr (length (handles w))),
      w\<lparr>loggers := loggers w @ [logrus_New\<lparr>Logger_Formatter := PrefixedTextFormatter True\<rparr>],
        logs_logger := Addr (length (loggers w)),
        handles := handles w @
          [\<lparr>logger = Addr (length (loggers w)),
            prefix = (if 0 < length prefix_arg then prefix_arg ! 0 else ''''),
            requestID = ''''\<rparr>],
        logs_instance := Addr (length (handles w)),
        logs_once := True\<rparr>)"
  using assms
  by (simp add: NewCommonLog_def once_Do_def once_body_first andThen_def get_handle_def
      set_handle_def deref_append_new assign_append_new)

lemma NewCommonLog_later:
  assumes "logs_once w" and "deref (handles w) (logs_instance w) = Some h"
  shows "NewCommonLog EqualFold prefix_arg w =
     (Returns (logs_instance w),
      if 0 < length prefix_arg \<and> \<not> EqualFold (prefix h) (prefix_arg ! 0)
      then w\<lparr>handles := assign (handles w) (logs_instance w) (h\<lparr>prefix := prefix_arg ! 0\<rparr>)\<rparr>
      else w)"
  using assms
  by (simp add: NewCommonLog_def once_Do_def andThen_def get_handle_def set_handle_def)

lemma NewCommonLog_keeps_singleton:
  assumes "singleton_at w q"
  shows "fst (NewCommonLog EqualFold prefix_arg w) = Returns q \<and>
         singleton_at (snd (NewCommonLog EqualFold prefix_arg w)) q"
proof -
  from assms obtain h where h: "deref (handles w) (logs_instance w) = Some h"
    and o: "logs_once w" and q: "logs_instance w = q"
    by (auto simp: singleton_at_def)
  show ?thesis
    using o q h by (simp add: NewCommonLog_later [OF o h] singleton_at_def deref_assign_same)
qed

lemma NewCommonLog_calls_singleton:
  "singleton_at w q \<Longrightarrow> set (fst (NewCommonLog_calls EqualFold args w)) \<subseteq> {Returns q}"
proof (induction args arbitrary: w)
  case Nil
  then show ?case by simp
next
  case (Cons a args)
  from NewCommonLog_keeps_singleton [OF Cons.prems, of EqualFold a]
  obtain w' where step: "NewCommonLog EqualFold a w = (Returns q, w')" and inv: "singleton_at w' q"
    by (cases "NewCommonLog EqualFold a w") auto
  from Cons.IH [OF inv] show ?case
    by (auto simp: step split: prod.splits)
qed

lemma NewCommonLog_first_singleton:
  assumes "\<not> logs_once w"
  shows "singleton_at (snd (NewCommonLog EqualFold prefix_arg w)) (Addr (length (handles w)))"
  using assms by (simp add: NewCommonLog_first singleton_at_def deref_append_new)

lemma NewCommonLog_first_handle_ok:
  assumes "\<not> logs_once w"
  shows "handle_ok (snd (NewCommonLog EqualFold prefix_arg w)) (Addr (length (handles w)))"
  using assms by (simp add: NewCommonLog_first handle_ok_def deref_append_new)

lemma world0_first_call:
  "NewCommonLog EqualFold prefix_arg world0 =
     (Returns (Addr 0),
      world0\<lparr>loggers := [logrus_New\<lparr>Logger_Formatter := PrefixedTextFormatter True\<rparr>],
        logs_logger := Addr 0,
        handles := [\<lparr>logger = Addr 0,
                     prefix = (if 0 < length prefix_arg then prefix_arg ! 0 else ''''),
                     requestID = ''''\<rparr>],
        logs_instance := Addr 0,
        logs_once := True\<rparr>)"
proof -
  have "\<not> logs_once world0" by (simp add: world0_def)
  from NewCommonLog_first [OF this, of EqualFold prefix_arg] show ?thesis
    by (simp add: world0_def)
qed

lemma ready_world_eq:
  "ready_world =
     world0\<lparr>loggers := [logrus_New\<lparr>Logger_Formatter := PrefixedTextFormatter True\<rparr>],
       logs_logger := Addr 0,
       handles := [\<lparr>logger = Addr 0, prefix = '''', requestID = ''''\<rparr>],
       logs_instance := Addr 0,
       logs_once := True,
       redis_logger := Addr 0\<rparr>"
  by (simp add: ready_world_def redis_init_def andThen_def world0_first_call)

lemma ready_world_handle:
  "deref (handles ready_world) (Addr 0) = Some \<lparr>logger = Addr 0, prefix = '''', requestID = ''''\<rparr>"
  by (simp add: ready_world_eq deref_def)

lemma ready_world_logger:
  "deref (loggers ready_world) (Addr 0) =
     Some (logrus_New\<lparr>Logger_Formatter := PrefixedTextFormatter True\<rparr>)"
  by (simp add: ready_world_eq deref_def)

lemma ready_world_ok: "handle_ok ready_world (Addr 0)"
  by (simp add: handle_ok_def ready_world_handle ready_world_logger)

lemma ready_world_obs:
  "captured ready_world = []" "redis_logger ready_world = Addr 0"
  "logs_instance ready_world = Addr 0" "logs_once ready_world" "caches ready_world = []"
  "scope_tags ready_world = Map.empty" "backend_keys ready_world = Map.empty"
  "backend_fault ready_world = (\<lambda>_. None)"
  by (simp_all add: ready_world_eq world0_def)

text \<open>
  C2, as the code has it. The first call makes the logger and the handle, at an address
  nothing was allocated at before, records the first argument as the prefix when an
  argument is passed, and stores the handle in the package variable. Every later call
  returns the pointer in the package variable and leaves the world as it is, but for the
  stored prefix, which it overwrites exactly when an argument is passed (whatever string
  it is, the empty one too) that \<open>EqualFold\<close> does not equate with the stored prefix.
  So all the calls of a run return one and the same pointer.
\<close>

theorem NewCommonLog_singleton:
  "(\<not> logs_once w \<longrightarrow>
      deref (handles w) (Addr (length (handles w))) = None \<and>
      fst (NewCommonLog EqualFold prefix_arg w) = Returns (Addr (length (handles w))) \<and>
      singleton_at (snd (NewCommonLog EqualFold prefix_arg w)) (Addr (length (handles w))) \<and>
      deref (handles (snd (NewCommonLog EqualFold prefix_arg w))) (Addr (length (handles w))) =
        Some \<lparr>logger = Addr (length (loggers w)),
              prefix = (if 0 < length prefix_arg then prefix_arg ! 0 else ''''),
              requestID = ''''\<rparr> \<and>
      set (fst (NewCommonLog_calls EqualFold (prefix_arg # rest) w)) =
        {Returns (Addr (length (handles w)))}) \<and>
   (logs_once w \<and> deref (handles w) (logs_instance w) = Some h \<longrightarrow>
      NewCommonLog EqualFold prefix_arg w =
        (Returns (logs_instance w),
         if 0 < length prefix_arg \<and> \<not> EqualFold (prefix h) (prefix_arg ! 0)
         then w\<lparr>handles := assign (handles w) (logs_instance w) (h\<lparr>prefix := prefix_arg ! 0\<rparr>)\<rparr>
         else w) \<and>
      singleton_at (snd (NewCommonLog EqualFold prefix_arg w)) (logs_instance w))"
proof (intro conjI impI)
  assume first: "\<not> logs_once w"
  let ?q = "Addr (length (handles w))"
  show "deref (handles w) ?q = None" by (rule deref_fresh)
  show "fst (NewCommonLog EqualFold prefix_arg w) = Returns ?q"
    by (simp add: NewCommonLog_first [OF first])
  show inv: "singleton_at (snd (NewCommonLog EqualFold prefix_arg w)) ?q"
    by (rule NewCommonLog_first_singleton [OF first])
  show "deref (handles (snd (NewCommonLog EqualFold prefix_arg w))) ?q =
        Some \<lparr>logger = Addr (length (loggers w)),
              prefix = (if 0 < length prefix_arg then prefix_arg ! 0 else ''''),
              requestID = ''''\<rparr>"
    by (simp add: NewCommonLog_first [OF first] deref_append_new)
  from NewCommonLog_calls_singleton [OF inv, of EqualFold rest]
  show "set (fst (NewCommonLog_calls EqualFold (prefix_arg # rest) w)) = {Returns ?q}"
    by (auto simp: NewCommonLog_first [OF first] split: prod.splits)
next
  assume later: "logs_once w \<and> deref (handles w) (logs_instance w) = Some h"
  then have o: "logs_once w" and h: "deref (handles w) (logs_instance w) = Some h"
    by simp_all
  show "NewCommonLog EqualFold prefix_arg w =
        (Returns (logs_instance w),
         if 0 < length prefix_arg \<and> \<not> EqualFold (prefix h) (prefix_arg ! 0)
         then w\<lparr>handles := assign (handles w) (logs_instance w) (h\<lparr>prefix := prefix_arg ! 0\<rparr>)\<rparr>
         else w)"
    by (rule NewCommonLog_later [OF o h])
  have "singleton_at w (logs_instance w)"
    using o h by (simp add: singleton_at_def)
  from NewCommonLog_keeps_singleton [OF this]
  show "singleton_at (snd (NewCommonLog EqualFold prefix_arg w)) (logs_instance w)"
    by simp
qed

lemma svc_world_eq:
  "svc_world =
     world0\<lparr>loggers := [logrus_New\<lparr>Logger_Formatter := PrefixedTextFormatter True\<rparr>],
       logs_logger := Addr 0,
       handles := [\<lparr>logger = Addr 0, prefix = ''svc'', requestID = ''''\<rparr>],
       logs_instance := Addr 0,
       logs_once := True\<rparr>"
  by (simp add: svc_world_def world0_first_call)

lemma svc_world_handle:
  "deref (handles svc_world) (Addr 0) = Some \<lparr>logger = Addr 0, prefix = ''svc'', requestID = ''''\<rparr>"
  by (simp add: svc_world_eq deref_def)

lemma svc_world_obs:
  "logs_once svc_world" "logs_instance svc_world = Addr 0"
  "handles svc_world = [\<lparr>logger = Addr 0, prefix = ''svc'', requestID = ''''\<rparr>]"
  by (simp_all add: svc_world_eq)

lemma ascii_EqualFold_examples:
  "ascii_EqualFold ''svc'' ''SVC''" "\<not> ascii_EqualFold ''svc'' ''api''"
  "\<not> ascii_EqualFold ''svc'' ''''"
  by (simp_all add: ascii_EqualFold_def ascii_lower_def)

text \<open>
  The run: a first call with the prefix \<open>svc\<close>, then a call with \<open>SVC\<close> (equal under
  case folding: nothing changes) or a call with \<open>api\<close> (the prefix is overwritten).
\<close>

theorem NewCommonLog_singleton_witness:
  "\<not> logs_once world0 \<and>
   fst (NewCommonLog ascii_EqualFold [''svc''] world0) = Returns (Addr 0) \<and>
   deref (handles svc_world) (Addr 0) =
     Some \<lparr>logger = Addr 0, prefix = ''svc'', requestID = ''''\<rparr> \<and>
   set (fst (NewCommonLog_calls ascii_EqualFold [[''svc''], [''SVC''], [''api''], []] world0)) =
     {Returns (Addr 0)} \<and>
   logs_once svc_world \<and>
   NewCommonLog ascii_EqualFold [''SVC''] svc_world = (Returns (Addr 0), svc_world) \<and>
   NewCommonLog ascii_EqualFold [''api''] svc_world =
     (Returns (Addr 0),
      svc_world\<lparr>handles := [\<lparr>logger = Addr 0, prefix = ''api'', requestID = ''''\<rparr>]\<rparr>)"
proof -
  have first: "\<not> logs_once world0"
    by (simp add: world0_def)
  have later: "logs_once svc_world \<and>
      deref (handles svc_world) (logs_instance svc_world) =
        Some \<lparr>logger = Addr 0, prefix = ''svc'', requestID = ''''\<rparr>"
    by (simp add: svc_world_obs deref_def)
  have empty: "length (handles world0) = 0" "length (loggers world0) = 0"
    by (simp_all add: world0_def)
  note run1 = NewCommonLog_singleton
    [where w = world0 and EqualFold = ascii_EqualFold and prefix_arg = "[''svc'']"
       and rest = "[[''SVC''], [''api''], []]", THEN conjunct1, rule_format, OF first]
  note run2 = NewCommonLog_singleton
    [where w = svc_world and EqualFold = ascii_EqualFold and prefix_arg = "[''SVC'']",
     THEN conjunct2, rule_format, OF later]
  note run3 = NewCommonLog_singleton
    [where w = svc_world and EqualFold = ascii_EqualFold and prefix_arg = "[''api'']",
     THEN conjunct2, rule_format, OF later]
  have a: "fst (NewCommonLog ascii_EqualFold [''svc''] world0) = Returns (Addr 0)"
    using run1 by (simp add: empty)
  have b: "deref (handles svc_world) (Addr 0) =
      Some \<lparr>logger = Addr 0, prefix = ''svc'', requestID = ''''\<rparr>"
    using run1 by (simp add: empty svc_world_def)
  have c: "set (fst (NewCommonLog_calls ascii_EqualFold [[''svc''], [''SVC''], [''api''], []] world0)) =
      {Returns (Addr 0)}"
    using run1 by (simp only: empty)
  have d: "NewCommonLog ascii_EqualFold [''SVC''] svc_world = (Returns (Addr 0), svc_world)"
    using run2 by (simp add: svc_world_obs ascii_EqualFold_examples)
  have e: "NewCommonLog ascii_EqualFold [''api''] svc_world =
     (Returns (Addr 0),
      svc_world\<lparr>handles := [\<lparr>logger = Addr 0, prefix = ''api'', requestID = ''''\<rparr>]\<rparr>)"
    using run3 by (simp add: svc_world_obs ascii_EqualFold_examples assign_def)
  from first a b c d e later show ?thesis by simp
qed

text \<open>
  C2 as the specification words it fails on the empty string. With \<open>svc\<close> stored, a
  call that passes the empty prefix is no overwrite by the specification's rule (the
  prefix supplied is not non-empty), yet the code overwrites: the stored prefix is empty
  afterwards.
\<close>

theorem NewCommonLog_empty_prefix_counterexample:
  "\<not> spec_overwrites ascii_EqualFold ''svc'' [''''] \<and>
   fst (Prefix (Addr 0) svc_world) = Returns ''svc'' \<and>
   fst (NewCommonLog ascii_EqualFold [''''] svc_world) = Returns (Addr 0) \<and>
   fst (Prefix (Addr 0) (snd (NewCommonLog ascii_EqualFold [''''] svc_world))) = Returns ''''"
proof -
  have later: "logs_once svc_world" "deref (handles svc_world) (logs_instance svc_world) =
        Some \<lparr>logger = Addr 0, prefix = ''svc'', requestID = ''''\<rparr>"
    by (simp_all add: svc_world_obs deref_def)
  have "NewCommonLog ascii_EqualFold [''''] svc_world =
     (Returns (Addr 0),
      svc_world\<lparr>handles := [\<lparr>logger = Addr 0, prefix = '''', requestID = ''''\<rparr>]\<rparr>)"
    by (simp add: NewCommonLog_later [OF later] svc_world_obs ascii_EqualFold_examples assign_def)
  then show ?thesis
    by (simp add: spec_overwrites_def Prefix_def flow_defs get_handle_def svc_world_obs deref_def)
qed

section \<open>Levels, prefix, the two stubs\<close>

text \<open>
  C3, as the code has it. On a handle whose logger is set, \<open>SetLevel v\<close> followed by
  \<open>Level\<close> gives \<open>v\<close> back when \<open>v\<close> is one of \<open>DEBUG\<close>, \<open>INFO\<close>, \<open>WARN\<close>, \<open>ERROR\<close>
  (so \<open>WARN\<close> for \<open>WARN\<close>), and gives \<open>INFO\<close> for every other \<open>v\<close>: the value that
  \<open>SetLevel\<close> stores for an unrecognised level is the logger's info level.
\<close>

theorem SetLevel_then_Level:
  assumes "handle_ok w q"
  shows "fst (andThen (SetLevel q v) (\<lambda>_. Level q) w) =
           Returns (if v \<in> {DEBUG, INFO, WARN, ERROR} then v else INFO)"
proof -
  from assms obtain h l where h: "deref (handles w) q = Some h"
    and l: "deref (loggers w) (logger h) = Some l"
    by (auto simp: handle_ok_def split: option.splits)
  then show ?thesis
    by (simp add: SetLevel_def Level_def flow_defs ptr_defs deref_assign_same
        toEchoLevel_toLogrusLevel)
qed

theorem SetLevel_then_Level_witness:
  "handle_ok ready_world (Addr 0) \<and>
   fst (andThen (SetLevel (Addr 0) WARN) (\<lambda>_. Level (Addr 0)) ready_world) = Returns WARN \<and>
   fst (andThen (SetLevel (Addr 0) OFF) (\<lambda>_. Level (Addr 0)) ready_world) = Returns INFO \<and>
   fst (andThen (SetLevel (Addr 0) 0) (\<lambda>_. Level (Addr 0)) ready_world) = Returns INFO"
  using SetLevel_then_Level [OF ready_world_ok, of WARN]
    SetLevel_then_Level [OF ready_world_ok, of OFF]
    SetLevel_then_Level [OF ready_world_ok, of 0]
  by (simp add: ready_world_ok Lvl_defs)

text \<open>
  C3 as the specification words it fails on the second half: \<open>OFF\<close> is outside the four
  levels, and after \<open>SetLevel OFF\<close> the level read back is \<open>INFO\<close>, not \<open>OFF\<close>.
\<close>

theorem SetLevel_OFF_counterexample:
  "OFF \<notin> {DEBUG, INFO, WARN, ERROR} \<and>
   fst (andThen (SetLevel (Addr 0) OFF) (\<lambda>_. Level (Addr 0)) ready_world) = Returns INFO \<and>
   fst (andThen (SetLevel (Addr 0) OFF) (\<lambda>_. Level (Addr 0)) ready_world) \<noteq> Returns OFF"
  by (simp add: SetLevel_def Level_def flow_defs ptr_defs ready_world_handle ready_world_logger
      deref_assign_same toEchoLevel_toLogrusLevel Lvl_defs)

text \<open>
  C10. On a handle, \<open>SetPrefix p\<close> writes \<open>p\<close> into the prefix field whatever \<open>p\<close> and
  the stored prefix are, nothing else in the world changes, and \<open>Prefix\<close> then returns
  \<open>p\<close>.
\<close>

theorem SetPrefix_then_Prefix:
  assumes "deref (handles w) q = Some h"
  shows "SetPrefix q p w = (Returns (), w\<lparr>handles := assign (handles w) q (h\<lparr>prefix := p\<rparr>)\<rparr>) \<and>
         fst (andThen (SetPrefix q p) (\<lambda>_. Prefix q) w) = Returns p"
  using assms
  by (simp add: SetPrefix_def Prefix_def flow_defs ptr_defs deref_assign_same)

text \<open>
  With \<open>svc\<close> stored: the empty string and \<open>SVC\<close>, which \<^verbatim>\<open>NewCommonLog\<close> would
  leave alone, both replace the stored prefix.
\<close>

theorem SetPrefix_then_Prefix_witness:
  "deref (handles svc_world) (Addr 0) = Some \<lparr>logger = Addr 0, prefix = ''svc'', requestID = ''''\<rparr> \<and>
   fst (andThen (SetPrefix (Addr 0) '''') (\<lambda>_. Prefix (Addr 0)) svc_world) = Returns '''' \<and>
   fst (andThen (SetPrefix (Addr 0) ''SVC'') (\<lambda>_. Prefix (Addr 0)) svc_world) = Returns ''SVC''"
  using SetPrefix_then_Prefix [OF svc_world_handle, of "''''"]
    SetPrefix_then_Prefix [OF svc_world_handle, of "''SVC''"]
  by (simp add: svc_world_handle)

text \<open>
  C9. \<open>SetOutput\<close> and \<open>SetHeader\<close> return at once and leave the whole world as it was,
  for every receiver (\<^verbatim>\<open>nil\<close> too: neither reads through it) and every argument; so
  the prefix, the level and the output read back as before, and the request id and
  everything else are as before.
\<close>

theorem SetOutput_SetHeader_noop:
  "SetOutput q wr w = (Returns (), w) \<and> SetHeader q hdr w = (Returns (), w) \<and>
   Prefix q (snd (SetOutput q wr w)) = Prefix q w \<and>
   Level q (snd (SetOutput q wr w)) = Level q w \<and>
   Output q (snd (SetOutput q wr w)) = Output q w \<and>
   handles (snd (SetOutput q wr w)) = handles w \<and>
   Prefix q (snd (SetHeader q hdr w)) = Prefix q w \<and>
   Level q (snd (SetHeader q hdr w)) = Level q w \<and>
   Output q (snd (SetHeader q hdr w)) = Output q w \<and>
   handles (snd (SetHeader q hdr w)) = handles w"
  by (simp add: SetOutput_def SetHeader_def return_def)

section \<open>The logging methods and the error tracker\<close>

lemma decorateLog_ok:
  assumes "handle_ok w q"
  shows "\<exists>e. decorateLog q w = (Returns e, w) \<and> deref (loggers w) (Entry_Logger e) \<noteq> None"
  using assms
  by (auto simp: handle_ok_def decorateLog_def Logger_WithFields_def WithFields_def flow_defs
      get_handle_def split: option.splits)

lemma Entry_log_ok:
  assumes "deref (loggers w) (Entry_Logger e) \<noteq> None"
  shows "\<exists>w'. Entry_log e level msg w = (Returns (), w') \<and> captured w' = captured w"
  using assms by (auto simp: Entry_log_def split: option.splits)

lemma logs_only:
  assumes "handle_ok w q"
  shows "fst (andThen (decorateLog q) (\<lambda>e. Entry_log e level msg) w) = Returns () \<and>
         captured (snd (andThen (decorateLog q) (\<lambda>e. Entry_log e level msg) w)) = captured w"
proof -
  from decorateLog_ok [OF assms] obtain e where
    d: "decorateLog q w = (Returns e, w)" and l: "deref (loggers w) (Entry_Logger e) \<noteq> None"
    by blast
  from Entry_log_ok [OF l] obtain w' where
    "Entry_log e level msg w = (Returns (), w')" and "captured w' = captured w"
    by blast
  then show ?thesis by (simp add: andThen_def d)
qed

lemma logs_then_captures:
  assumes "handle_ok w q"
  shows "fst (andThen (decorateLog q)
                (\<lambda>e. andThen (Entry_log e level msg) (\<lambda>_. sentry q m)) w) = Returns () \<and>
         captured (snd (andThen (decorateLog q)
                (\<lambda>e. andThen (Entry_log e level msg) (\<lambda>_. sentry q m)) w)) = captured w @ [m]"
proof -
  from decorateLog_ok [OF assms] obtain e where
    d: "decorateLog q w = (Returns e, w)" and l: "deref (loggers w) (Entry_Logger e) \<noteq> None"
    by blast
  from Entry_log_ok [OF l] obtain w' where
    "Entry_log e level msg w = (Returns (), w')" and "captured w' = captured w"
    by blast
  then show ?thesis by (simp add: andThen_def d sentry_def CaptureMessage_def)
qed

lemma exits_before_capture:
  assumes "handle_ok w q"
  shows "fst (andThen (decorateLog q)
                (\<lambda>e. andThen (andThen (Entry_log e level msg) (\<lambda>_. Logger_Exit 1))
                        (\<lambda>_. sentry q m)) w) = Exits 1 \<and>
         captured (snd (andThen (decorateLog q)
                (\<lambda>e. andThen (andThen (Entry_log e level msg) (\<lambda>_. Logger_Exit 1))
                        (\<lambda>_. sentry q m)) w)) = captured w"
proof -
  from decorateLog_ok [OF assms] obtain e where
    d: "decorateLog q w = (Returns e, w)" and l: "deref (loggers w) (Entry_Logger e) \<noteq> None"
    by blast
  from Entry_log_ok [OF l] obtain w' where
    "Entry_log e level msg w = (Returns (), w')" and "captured w' = captured w"
    by blast
  then show ?thesis by (simp add: andThen_def d Logger_Exit_def)
qed

lemma panics_before_capture:
  assumes "handle_ok w q"
  shows "fst (andThen (decorateLog q)
                (\<lambda>e. andThen (andThen (Entry_log e level msg) (\<lambda>_ w. (Panics (LogPanic msg), w)))
                        (\<lambda>_. sentry q m)) w) = Panics (LogPanic msg) \<and>
         captured (snd (andThen (decorateLog q)
                (\<lambda>e. andThen (andThen (Entry_log e level msg) (\<lambda>_ w. (Panics (LogPanic msg), w)))
                        (\<lambda>_. sentry q m)) w)) = captured w"
proof -
  from decorateLog_ok [OF assms] obtain e where
    d: "decorateLog q w = (Returns e, w)" and l: "deref (loggers w) (Entry_Logger e) \<noteq> None"
    by blast
  from Entry_log_ok [OF l] obtain w' where
    "Entry_log e level msg w = (Returns (), w')" and "captured w' = captured w"
    by blast
  then show ?thesis by (simp add: andThen_def d)
qed

lemmas Entry_defs =
  Entry_Print_def Entry_Printf_def Entry_Debug_def Entry_Debugf_def Entry_Info_def
  Entry_Infof_def Entry_Warn_def Entry_Warnf_def Entry_Error_def Entry_Errorf_def
  Entry_Fatal_def Entry_Fatalf_def Entry_Panic_def Entry_Panicf_def

lemma quiet_methods:
  assumes "handle_ok w q"
  shows "captured (snd (Print F q i w)) = captured w"
    and "captured (snd (Printf F q format args w)) = captured w"
    and "captured (snd (Printj F q j w)) = captured w"
    and "captured (snd (Debug F q i w)) = captured w"
    and "captured (snd (Debugf F q format args w)) = captured w"
    and "captured (snd (Debugj F q j w)) = captured w"
    and "captured (snd (Info F q i w)) = captured w"
    and "captured (snd (Infof F q format args w)) = captured w"
    and "captured (snd (Infoj F q j w)) = captured w"
    and "captured (snd (Warn F q i w)) = captured w"
    and "captured (snd (Warnf F q format args w)) = captured w"
    and "captured (snd (Warnj F q j w)) = captured w"
  by (simp_all add: Print_def Printf_def Printj_def Debug_def Debugf_def Debugj_def Info_def
      Infof_def Infoj_def Warn_def Warnf_def Warnj_def Entry_defs logs_only [OF assms])

lemma Error_methods:
  assumes "handle_ok w q"
  shows "captured (snd (Error F q i w)) = captured w @ [Sprintf F ''%+v'' i]"
    and "captured (snd (Errorf F q format args w)) = captured w @ [Sprintf F format args]"
    and "captured (snd (Errorj F q j w)) = captured w @ [Sprintf F ''%+v'' [j]]"
  by (simp_all add: Error_def Errorf_def Errorj_def Entry_defs logs_then_captures [OF assms])

lemma Fatal_methods:
  assumes "handle_ok w q"
  shows "fst (Fatal F q i w) = Exits 1" and "captured (snd (Fatal F q i w)) = captured w"
    and "fst (Fatalf F q format args w) = Exits 1"
    and "captured (snd (Fatalf F q format args w)) = captured w"
    and "fst (Fatalj F q j w) = Exits 1" and "captured (snd (Fatalj F q j w)) = captured w"
  by (simp_all add: Fatal_def Fatalf_def Fatalj_def Entry_defs exits_before_capture [OF assms])

lemma Panic_methods:
  assumes "handle_ok w q"
  shows "fst (Panic F q i w) = Panics (LogPanic (Sprint F i))"
    and "captured (snd (Panic F q i w)) = captured w"
    and "fst (Panicf F q format args w) = Panics (LogPanic (Sprintf F format args))"
    and "captured (snd (Panicf F q format args w)) = captured w"
    and "fst (Panicj F q j w) = Panics (LogPanic (Sprintf F ''%+v'' [j]))"
    and "captured (snd (Panicj F q j w)) = captured w"
  by (simp_all add: Panic_def Panicf_def Panicj_def Entry_defs panics_before_capture [OF assms])

text \<open>
  C1, on the code. On a handle whose logger is set: \<open>Error\<close>, \<open>Errorf\<close> and \<open>Errorj\<close>
  hand exactly one message to the error tracker, the string \<^verbatim>\<open>fmt.Sprintf\<close> renders
  from their arguments; the twelve \<open>Print\<close>, \<open>Debug\<close>, \<open>Info\<close> and \<open>Warn\<close> methods hand
  it none. \<open>Fatal\<close>, \<open>Fatalf\<close> and \<open>Fatalj\<close> end the process with exit code 1 and
  \<open>Panic\<close>, \<open>Panicf\<close> and \<open>Panicj\<close> panic, inside the logger's call: the capture written
  after that call is never reached, and these six hand the error tracker no message.
\<close>

theorem capture_calls:
  assumes "handle_ok w q"
  shows
    "captured (snd (Error F q i w)) = captured w @ [Sprintf F ''%+v'' i] \<and>
     captured (snd (Errorf F q format args w)) = captured w @ [Sprintf F format args] \<and>
     captured (snd (Errorj F q j w)) = captured w @ [Sprintf F ''%+v'' [j]] \<and>
     fst (Fatal F q i w) = Exits 1 \<and> captured (snd (Fatal F q i w)) = captured w \<and>
     fst (Fatalf F q format args w) = Exits 1 \<and>
     captured (snd (Fatalf F q format args w)) = captured w \<and>
     fst (Fatalj F q j w) = Exits 1 \<and> captured (snd (Fatalj F q j w)) = captured w \<and>
     fst (Panic F q i w) = Panics (LogPanic (Sprint F i)) \<and>
     captured (snd (Panic F q i w)) = captured w \<and>
     fst (Panicf F q format args w) = Panics (LogPanic (Sprintf F format args)) \<and>
     captured (snd (Panicf F q format args w)) = captured w \<and>
     fst (Panicj F q j w) = Panics (LogPanic (Sprintf F ''%+v'' [j])) \<and>
     captured (snd (Panicj F q j w)) = captured w \<and>
     captured (snd (Print F q i w)) = captured w \<and>
     captured (snd (Printf F q format args w)) = captured w \<and>
     captured (snd (Printj F q j w)) = captured w \<and>
     captured (snd (Debug F q i w)) = captured w \<and>
     captured (snd (Debugf F q format args w)) = captured w \<and>
     captured (snd (Debugj F q j w)) = captured w \<and>
     captured (snd (Info F q i w)) = captured w \<and>
     captured (snd (Infof F q format args w)) = captured w \<and>
     captured (snd (Infoj F q j w)) = captured w \<and>
     captured (snd (Warn F q i w)) = captured w \<and>
     captured (snd (Warnf F q format args w)) = captured w \<and>
     captured (snd (Warnj F q j w)) = captured w"
  by (simp only: Error_methods [OF assms] Fatal_methods [OF assms] Panic_methods [OF assms]
      quiet_methods [OF assms] simp_thms)

text \<open>
  The message \<open>boom\<close> on the handle of the singleton, with nothing captured before:
  \<open>Error\<close> captures it once, \<open>Info\<close> captures nothing, and \<open>Fatal\<close> and \<open>Panic\<close>
  capture nothing either.
\<close>

theorem capture_calls_witness:
  "handle_ok ready_world (Addr 0) \<and> captured ready_world = [] \<and>
   captured (snd (Error plain_fmt (Addr 0) [''boom''] ready_world)) = [''boom''] \<and>
   captured (snd (Info plain_fmt (Addr 0) [''boom''] ready_world)) = [] \<and>
   fst (Fatal plain_fmt (Addr 0) [''boom''] ready_world) = Exits 1 \<and>
   captured (snd (Fatal plain_fmt (Addr 0) [''boom''] ready_world)) = [] \<and>
   fst (Panic plain_fmt (Addr 0) [''boom''] ready_world) = Panics (LogPanic ''boom'') \<and>
   captured (snd (Panic plain_fmt (Addr 0) [''boom''] ready_world)) = []"
  using capture_calls [OF ready_world_ok, of plain_fmt "[''boom'']"]
  by (simp add: ready_world_ok ready_world_obs plain_fmt_def)

section \<open>The request-id middleware\<close>

lemma MiddlewareLoggerRequestID_run:
  assumes "deref (handles w) q = Some h"
  shows "MiddlewareLoggerRequestID q next c w =
     next c
       (w\<lparr>handles := assign (handles w) q
             (h\<lparr>requestID := Header_Get (Header (Request c)) HeaderXRequestID\<rparr>),
          scope_tags := (scope_tags w)
             (''x-request-id'' \<mapsto> Header_Get (Header (Request c)) HeaderXRequestID)\<rparr>)"
  using assms
  by (simp add: MiddlewareLoggerRequestID_def Let_def andThen_def set_handle_def
      ConfigureScope_def SetTag_def)

text \<open>
  C7. On a handle, for every request: the middleware is the wrapped handler run in the
  world in which the handle's request id and the scope's tag \<open>x-request-id\<close> are what
  \<^verbatim>\<open>Header.Get\<close> gives for \<^verbatim>\<open>X-Request-Id\<close>; so the handler is always called, both
  are set when it starts, and its result and the world it leaves are returned as they
  are. For a request whose \<^verbatim>\<open>X-Request-Id\<close> header has a value, the request id and
  the tag are that value.
\<close>

theorem MiddlewareLoggerRequestID_sets_then_calls:
  assumes "deref (handles w) q = Some h"
  shows "MiddlewareLoggerRequestID q next c w =
           next c
             (w\<lparr>handles := assign (handles w) q
                   (h\<lparr>requestID := Header_Get (Header (Request c)) HeaderXRequestID\<rparr>),
                scope_tags := (scope_tags w)
                   (''x-request-id'' \<mapsto> Header_Get (Header (Request c)) HeaderXRequestID)\<rparr>) \<and>
         (Header (Request c) ''X-Request-Id'' = Some (v # vs) \<longrightarrow>
            MiddlewareLoggerRequestID q next c w =
              next c (w\<lparr>handles := assign (handles w) q (h\<lparr>requestID := v\<rparr>),
                        scope_tags := (scope_tags w)(''x-request-id'' \<mapsto> v)\<rparr>) \<and>
            deref (handles (w\<lparr>handles := assign (handles w) q (h\<lparr>requestID := v\<rparr>),
                        scope_tags := (scope_tags w)(''x-request-id'' \<mapsto> v)\<rparr>)) q =
              Some (h\<lparr>requestID := v\<rparr>) \<and>
            scope_tags (w\<lparr>handles := assign (handles w) q (h\<lparr>requestID := v\<rparr>),
                        scope_tags := (scope_tags w)(''x-request-id'' \<mapsto> v)\<rparr>)
              ''x-request-id'' = Some v)"
proof (intro conjI impI)
  show "MiddlewareLoggerRequestID q next c w =
           next c
             (w\<lparr>handles := assign (handles w) q
                   (h\<lparr>requestID := Header_Get (Header (Request c)) HeaderXRequestID\<rparr>),
                scope_tags := (scope_tags w)
                   (''x-request-id'' \<mapsto> Header_Get (Header (Request c)) HeaderXRequestID)\<rparr>)"
    by (rule MiddlewareLoggerRequestID_run [OF assms])
next
  assume present: "Header (Request c) ''X-Request-Id'' = Some (v # vs)"
  then have "Header_Get (Header (Request c)) HeaderXRequestID = v"
    by (simp add: Header_Get_def HeaderXRequestID_def)
  with MiddlewareLoggerRequestID_run [OF assms, of "next" c]
  show "MiddlewareLoggerRequestID q next c w =
              next c (w\<lparr>handles := assign (handles w) q (h\<lparr>requestID := v\<rparr>),
                        scope_tags := (scope_tags w)(''x-request-id'' \<mapsto> v)\<rparr>)"
    by simp
  show "deref (handles (w\<lparr>handles := assign (handles w) q (h\<lparr>requestID := v\<rparr>),
                        scope_tags := (scope_tags w)(''x-request-id'' \<mapsto> v)\<rparr>)) q =
              Some (h\<lparr>requestID := v\<rparr>)"
    using assms by (simp add: deref_assign_same)
  show "scope_tags (w\<lparr>handles := assign (handles w) q (h\<lparr>requestID := v\<rparr>),
                        scope_tags := (scope_tags w)(''x-request-id'' \<mapsto> v)\<rparr>)
              ''x-request-id'' = Some v"
    by simp
qed

text \<open>
  The request with \<^verbatim>\<open>X-Request-Id: abc-123\<close> through the middleware on the handle of
  the singleton. Run on its own, the probing handler sees neither the request id nor the
  tag; run through the middleware, it sees both, and its error comes back unchanged.
\<close>

theorem MiddlewareLoggerRequestID_sets_then_calls_witness:
  "deref (handles ready_world) (Addr 0) = Some \<lparr>logger = Addr 0, prefix = '''', requestID = ''''\<rparr> \<and>
   Header (Request example_context) ''X-Request-Id'' = Some [''abc-123''] \<and>
   fst (probe_handler example_context ready_world) = Returns None \<and>
   fst (MiddlewareLoggerRequestID (Addr 0) probe_handler example_context ready_world) =
     Returns (Some ''seen'')"
proof -
  have hdr: "Header (Request example_context) ''X-Request-Id'' = Some (''abc-123'' # [])"
    by (simp add: example_context_def)
  have before: "fst (probe_handler example_context ready_world) = Returns None"
    by (simp add: probe_handler_def ready_world_handle)
  from MiddlewareLoggerRequestID_sets_then_calls
    [OF ready_world_handle, of probe_handler example_context, THEN conjunct2, rule_format,
     OF hdr]
  have "fst (MiddlewareLoggerRequestID (Addr 0) probe_handler example_context ready_world) =
     Returns (Some ''seen'')"
    by (simp add: probe_handler_def)
  with hdr before ready_world_handle show ?thesis by simp
qed

section \<open>The cache handle\<close>

lemma NewRedis_run:
  "NewRedis config w =
     (Returns (Addr (length (caches w))),
      w\<lparr>caches := caches w @
          [\<lparr>host = Host config, password = Password config, db = DB config,
            poolSize = PoolSize config, readTimeout = ReadTimeout config, client = None\<rparr>]\<rparr>)"
  by (simp add: NewRedis_def alloc_def)

lemma redisOpt_eq:
  "redisOpt h =
     \<lparr>opt_Addr = host h, opt_Password = password h, opt_DB = db h,
      opt_PoolSize = (if poolSize h = 0 then 64 else poolSize h),
      opt_ReadTimeout = (if readTimeout h = 0 then 10 * Second else readTimeout h)\<rparr>"
  by (simp add: redisOpt_def Let_def)

lemma Info_returns:
  assumes "handle_ok w q"
  shows "\<exists>w'. Info F q i w = (Returns (), w') \<and> caches w' = caches w \<and>
           backend_fault w' = backend_fault w \<and> backend_keys w' = backend_keys w \<and>
           fault_value w' = fault_value w \<and> fault_count w' = fault_count w \<and>
           captured w' = captured w"
proof -
  from decorateLog_ok [OF assms] obtain e where
    d: "decorateLog q w = (Returns e, w)" and l: "deref (loggers w) (Entry_Logger e) \<noteq> None"
    by blast
  from l show ?thesis
    by (auto simp: Info_def andThen_def d Entry_Info_def Entry_log_def split: option.splits)
qed

lemma InitClient_run:
  assumes "handle_ok w (redis_logger w)" and "deref (caches w) r = Some h"
  shows "\<exists>w'. caches w' = caches w \<and> backend_fault w' = backend_fault w \<and>
           backend_keys w' = backend_keys w \<and> fault_value w' = fault_value w \<and>
           fault_count w' = fault_count w \<and> captured w' = captured w \<and>
           InitClient F NewClient r w =
             (case backend_fault w (client_opt (NewClient (redisOpt h))) of
                Some e \<Rightarrow> (Returns (Some e), w')
              | None \<Rightarrow>
                  (Returns None,
                   w'\<lparr>caches := assign (caches w) r
                         (h\<lparr>client := Some (NewClient (redisOpt h))\<rparr>)\<rparr>))"
proof -
  from Info_returns [OF assms(1), of F "[of_string F ''Start open redis connection...'']"]
  obtain w' where i: "Info F (redis_logger w) [of_string F ''Start open redis connection...''] w =
      (Returns (), w')"
    and same: "caches w' = caches w" "backend_fault w' = backend_fault w"
      "backend_keys w' = backend_keys w" "fault_value w' = fault_value w"
      "fault_count w' = fault_count w" "captured w' = captured w"
    by blast
  have "InitClient F NewClient r w =
       (case backend_fault w (client_opt (NewClient (redisOpt h))) of
          Some e \<Rightarrow> (Returns (Some e), w')
        | None \<Rightarrow>
            (Returns None,
             w'\<lparr>caches := assign (caches w) r (h\<lparr>client := Some (NewClient (redisOpt h))\<rparr>)\<rparr>))"
    using assms(2)
    by (simp add: InitClient_def andThen_def i same get_redis_def set_redis_def return_def
        Client_Ping_def split: option.splits)
  with same show ?thesis by blast
qed

text \<open>
  C5. On a cache handle, with the package's logger in place, and whatever client the
  constructor makes from the options: when the ping of that client fails, \<open>InitClient\<close>
  returns the ping's error as it is and the store of the cache handles is as before, so
  the handle is as before and a client that was \<^verbatim>\<open>nil\<close> is still \<^verbatim>\<open>nil\<close>; when the
  ping succeeds, \<open>InitClient\<close> returns no error and the handle is as before but for its
  client, which is the client made from the options. A handle that \<open>NewRedis\<close> has just
  made has the client \<^verbatim>\<open>nil\<close>.
\<close>

theorem InitClient_atomic:
  assumes "handle_ok w (redis_logger w)" and "deref (caches w) r = Some h"
  shows
    "(backend_fault w (client_opt (NewClient (redisOpt h))) = Some e \<longrightarrow>
        fst (InitClient F NewClient r w) = Returns (Some e) \<and>
        caches (snd (InitClient F NewClient r w)) = caches w \<and>
        deref (caches (snd (InitClient F NewClient r w))) r = Some h) \<and>
     (backend_fault w (client_opt (NewClient (redisOpt h))) = None \<longrightarrow>
        fst (InitClient F NewClient r w) = Returns None \<and>
        caches (snd (InitClient F NewClient r w)) =
          assign (caches w) r (h\<lparr>client := Some (NewClient (redisOpt h))\<rparr>) \<and>
        deref (caches (snd (InitClient F NewClient r w))) r =
          Some (h\<lparr>client := Some (NewClient (redisOpt h))\<rparr>)) \<and>
     fst (andThen (NewRedis config) (\<lambda>r. GetClient r) w) = Returns None"
proof -
  from InitClient_run [OF assms, of F NewClient] obtain w' where
    same: "caches w' = caches w"
    and run: "InitClient F NewClient r w =
       (case backend_fault w (client_opt (NewClient (redisOpt h))) of
          Some e \<Rightarrow> (Returns (Some e), w')
        | None \<Rightarrow>
            (Returns None,
             w'\<lparr>caches := assign (caches w) r (h\<lparr>client := Some (NewClient (redisOpt h))\<rparr>)\<rparr>))"
    by blast
  have fresh: "fst (andThen (NewRedis config) (\<lambda>r. GetClient r) w) = Returns None"
    by (simp add: andThen_def NewRedis_run GetClient_def get_redis_def return_def
        deref_append_new)
  show ?thesis
    using assms(2) fresh by (simp add: run same deref_assign_same)
qed

lemma InitClient_frame:
  assumes "handle_ok w (redis_logger w)" and "deref (caches w) r = Some h"
  shows "backend_fault (snd (InitClient F NewClient r w)) = backend_fault w"
    and "backend_keys (snd (InitClient F NewClient r w)) = backend_keys w"
    and "fault_value (snd (InitClient F NewClient r w)) = fault_value w"
    and "fault_count (snd (InitClient F NewClient r w)) = fault_count w"
    and "captured (snd (InitClient F NewClient r w)) = captured w"
proof -
  from InitClient_run [OF assms, of F NewClient] obtain w' where
    same: "backend_fault w' = backend_fault w" "backend_keys w' = backend_keys w"
      "fault_value w' = fault_value w" "fault_count w' = fault_count w"
      "captured w' = captured w"
    and run: "InitClient F NewClient r w =
       (case backend_fault w (client_opt (NewClient (redisOpt h))) of
          Some e \<Rightarrow> (Returns (Some e), w')
        | None \<Rightarrow>
            (Returns None,
             w'\<lparr>caches := assign (caches w) r (h\<lparr>client := Some (NewClient (redisOpt h))\<rparr>)\<rparr>))"
    by blast
  show "backend_fault (snd (InitClient F NewClient r w)) = backend_fault w"
    by (simp add: run same split: option.splits)
  show "backend_keys (snd (InitClient F NewClient r w)) = backend_keys w"
    by (simp add: run same split: option.splits)
  show "fault_value (snd (InitClient F NewClient r w)) = fault_value w"
    by (simp add: run same split: option.splits)
  show "fault_count (snd (InitClient F NewClient r w)) = fault_count w"
    by (simp add: run same split: option.splits)
  show "captured (snd (InitClient F NewClient r w)) = captured w"
    by (simp add: run same split: option.splits)
qed

lemma cache_world_eq:
  "cache_world =
     ready_world\<lparr>caches :=
       [\<lparr>host = ''localhost:6379'', password = ''secret'', db = 0, poolSize = 0,
         readTimeout = 0, client = None\<rparr>]\<rparr>"
  by (simp add: cache_world_def NewRedis_run example_config_def ready_world_obs)

lemma cache_world_handle:
  "deref (caches cache_world) (Addr 0) =
     Some \<lparr>host = ''localhost:6379'', password = ''secret'', db = 0, poolSize = 0,
           readTimeout = 0, client = None\<rparr>"
  by (simp add: cache_world_eq deref_def)

lemma cache_world_logs:
  "handles cache_world = handles ready_world" "loggers cache_world = loggers ready_world"
  "redis_logger cache_world = Addr 0"
  by (simp_all add: cache_world_eq ready_world_obs)

lemma cache_world_ok: "handle_ok cache_world (redis_logger cache_world)"
  by (simp add: handle_ok_def cache_world_logs ready_world_handle ready_world_logger)

lemma cache_world_backend:
  "backend_fault cache_world = (\<lambda>_. None)" "backend_keys cache_world = Map.empty"
  by (simp_all add: cache_world_eq ready_world_obs)

lemma down_world_handle:
  "deref (caches down_world) (Addr 0) =
     Some \<lparr>host = ''localhost:6379'', password = ''secret'', db = 0, poolSize = 0,
           readTimeout = 0, client = None\<rparr>"
  using cache_world_handle by (simp add: down_world_def)

lemma down_world_ok: "handle_ok down_world (redis_logger down_world)"
  by (simp add: handle_ok_def down_world_def cache_world_logs ready_world_handle
      ready_world_logger)

lemma example_options:
  "redisOpt \<lparr>host = ''localhost:6379'', password = ''secret'', db = 0, poolSize = 0,
             readTimeout = 0, client = None\<rparr> =
     \<lparr>opt_Addr = ''localhost:6379'', opt_Password = ''secret'', opt_DB = 0, opt_PoolSize = 64,
      opt_ReadTimeout = 10000000000\<rparr>"
  by (simp add: redisOpt_eq Second_def)

lemma example_client:
  "library_NewClient 4
     \<lparr>opt_Addr = ''localhost:6379'', opt_Password = ''secret'', opt_DB = 0, opt_PoolSize = 64,
      opt_ReadTimeout = 10000000000\<rparr> =
   \<lparr>client_opt =
     \<lparr>opt_Addr = ''localhost:6379'', opt_Password = ''secret'', opt_DB = 0, opt_PoolSize = 64,
      opt_ReadTimeout = 10000000000\<rparr>\<rparr>"
  by (simp add: library_NewClient_def init_Options_def)

text \<open>
  A backend that answers, and one that refuses the connection: the first run returns no
  error and the client is set afterwards, the second returns the backend's error and
  the client is still \<^verbatim>\<open>nil\<close>.
\<close>

theorem InitClient_atomic_witness:
  "handle_ok cache_world (redis_logger cache_world) \<and>
   deref (caches cache_world) (Addr 0) =
     Some \<lparr>host = ''localhost:6379'', password = ''secret'', db = 0, poolSize = 0,
           readTimeout = 0, client = None\<rparr> \<and>
   fst (InitClient plain_fmt (library_NewClient 4) (Addr 0) cache_world) = Returns None \<and>
   fst (GetClient (Addr 0) (snd (InitClient plain_fmt (library_NewClient 4) (Addr 0) cache_world))) =
     Returns (Some \<lparr>client_opt =
       \<lparr>opt_Addr = ''localhost:6379'', opt_Password = ''secret'', opt_DB = 0, opt_PoolSize = 64,
        opt_ReadTimeout = 10000000000\<rparr>\<rparr>) \<and>
   handle_ok down_world (redis_logger down_world) \<and>
   fst (InitClient plain_fmt (library_NewClient 4) (Addr 0) down_world) =
     Returns (Some (ReplyError ''connection refused'')) \<and>
   fst (GetClient (Addr 0) (snd (InitClient plain_fmt (library_NewClient 4) (Addr 0) down_world))) =
     Returns None"
proof -
  let ?h = "\<lparr>host = ''localhost:6379'', password = ''secret'', db = 0, poolSize = 0,
             readTimeout = 0, client = None\<rparr>"
  have up: "backend_fault cache_world (client_opt (library_NewClient 4 (redisOpt ?h))) = None"
    by (simp add: cache_world_backend)
  have down: "backend_fault down_world (client_opt (library_NewClient 4 (redisOpt ?h))) =
      Some (ReplyError ''connection refused'')"
    by (simp add: down_world_def)
  note ok = InitClient_atomic [OF cache_world_ok cache_world_handle,
      of "library_NewClient 4" _ plain_fmt, THEN conjunct2, THEN conjunct1, rule_format, OF up]
  note ko = InitClient_atomic [OF down_world_ok down_world_handle,
      of "library_NewClient 4" _ plain_fmt, THEN conjunct1, rule_format, OF down]
  have a: "fst (InitClient plain_fmt (library_NewClient 4) (Addr 0) cache_world) = Returns None"
    using ok by simp
  have b: "fst (GetClient (Addr 0)
        (snd (InitClient plain_fmt (library_NewClient 4) (Addr 0) cache_world))) =
     Returns (Some \<lparr>client_opt =
       \<lparr>opt_Addr = ''localhost:6379'', opt_Password = ''secret'', opt_DB = 0, opt_PoolSize = 64,
        opt_ReadTimeout = 10000000000\<rparr>\<rparr>)"
    using ok [THEN conjunct2, THEN conjunct2]
    by (simp add: GetClient_def andThen_def get_redis_def return_def example_options
        example_client)
  have c: "fst (InitClient plain_fmt (library_NewClient 4) (Addr 0) down_world) =
     Returns (Some (ReplyError ''connection refused''))"
    using ko by simp
  have d: "fst (GetClient (Addr 0)
        (snd (InitClient plain_fmt (library_NewClient 4) (Addr 0) down_world))) = Returns None"
    using ko [THEN conjunct2, THEN conjunct2]
    by (simp add: GetClient_def andThen_def get_redis_def return_def)
  from a b c d cache_world_ok cache_world_handle down_world_ok show ?thesis by simp
qed

text \<open>
  C6. The options \<open>InitClient\<close> builds from a handle: address and password are the
  handle's host and password, the database index is the handle's (0 when it is 0), the
  pool size is the handle's unless that is 0, and then 64, and the read timeout is the
  handle's unless that is 0, and then ten seconds (\<open>10 * Second\<close>, 10000000000
  nanoseconds). \<open>NewRedis\<close> copies the five fields of the config into the handle. These
  options are what \<open>InitClient\<close> hands to the constructor of the client: the ping goes
  through the client the constructor makes from them, and after a successful
  \<open>InitClient\<close> the client of the handle is that client, whatever the constructor does
  with the options it is handed.
\<close>

theorem InitClient_options:
  "redisOpt h =
     \<lparr>opt_Addr = host h, opt_Password = password h, opt_DB = db h,
      opt_PoolSize = (if poolSize h = 0 then 64 else poolSize h),
      opt_ReadTimeout = (if readTimeout h = 0 then 10 * Second else readTimeout h)\<rparr> \<and>
   10 * Second = 10000000000 \<and>
   deref (caches (snd (NewRedis config w))) (Addr (length (caches w))) =
     Some \<lparr>host = Host config, password = Password config, db = DB config,
           poolSize = PoolSize config, readTimeout = ReadTimeout config, client = None\<rparr> \<and>
   (handle_ok w (redis_logger w) \<and> deref (caches w) r = Some h \<and>
    backend_fault w (client_opt (NewClient (redisOpt h))) = None \<longrightarrow>
      fst (andThen (InitClient F NewClient r) (\<lambda>_. GetClient r) w) =
        Returns (Some (NewClient (redisOpt h))))"
proof (intro conjI impI)
  show "redisOpt h =
     \<lparr>opt_Addr = host h, opt_Password = password h, opt_DB = db h,
      opt_PoolSize = (if poolSize h = 0 then 64 else poolSize h),
      opt_ReadTimeout = (if readTimeout h = 0 then 10 * Second else readTimeout h)\<rparr>"
    by (rule redisOpt_eq)
  show "10 * Second = 10000000000"
    by (simp add: Second_def)
  show "deref (caches (snd (NewRedis config w))) (Addr (length (caches w))) =
     Some \<lparr>host = Host config, password = Password config, db = DB config,
           poolSize = PoolSize config, readTimeout = ReadTimeout config, client = None\<rparr>"
    by (simp add: NewRedis_run deref_append_new)
next
  assume pre: "handle_ok w (redis_logger w) \<and> deref (caches w) r = Some h \<and>
    backend_fault w (client_opt (NewClient (redisOpt h))) = None"
  then have ok: "handle_ok w (redis_logger w)" and h: "deref (caches w) r = Some h"
    and up: "backend_fault w (client_opt (NewClient (redisOpt h))) = None"
    by simp_all
  from InitClient_run [OF ok h, of F NewClient] up obtain w' where
    run: "InitClient F NewClient r w =
       (Returns None,
        w'\<lparr>caches := assign (caches w) r (h\<lparr>client := Some (NewClient (redisOpt h))\<rparr>)\<rparr>)"
    by auto
  show "fst (andThen (InitClient F NewClient r) (\<lambda>_. GetClient r) w) =
        Returns (Some (NewClient (redisOpt h)))"
    using h by (simp add: andThen_def run GetClient_def get_redis_def return_def
        deref_assign_same)
qed

text \<open>
  A config with every optional field left at zero gives the database 0, the pool size 64
  and the timeout of ten seconds, and the client of the handle is the one made from
  these options; a handle with the three fields set keeps them. A handle with an empty
  host and the read timeout -1 gives options with the empty address and the timeout -1,
  which the constructor of the examples then rewrites in the client it makes.
\<close>

theorem InitClient_options_witness:
  "handle_ok cache_world (redis_logger cache_world) \<and>
   deref (caches (snd (NewRedis example_config ready_world))) (Addr 0) =
     Some \<lparr>host = ''localhost:6379'', password = ''secret'', db = 0, poolSize = 0,
           readTimeout = 0, client = None\<rparr> \<and>
   fst (andThen (InitClient plain_fmt (library_NewClient 4) (Addr 0))
          (\<lambda>_. GetClient (Addr 0)) cache_world) =
     Returns (Some \<lparr>client_opt =
       \<lparr>opt_Addr = ''localhost:6379'', opt_Password = ''secret'', opt_DB = 0, opt_PoolSize = 64,
        opt_ReadTimeout = 10000000000\<rparr>\<rparr>) \<and>
   redisOpt \<lparr>host = ''cache:6380'', password = '''', db = 2, poolSize = 8,
             readTimeout = 3 * Second, client = None\<rparr> =
     \<lparr>opt_Addr = ''cache:6380'', opt_Password = '''', opt_DB = 2, opt_PoolSize = 8,
      opt_ReadTimeout = 3000000000\<rparr> \<and>
   redisOpt \<lparr>host = '''', password = '''', db = 0, poolSize = 0, readTimeout = - 1,
             client = None\<rparr> =
     \<lparr>opt_Addr = '''', opt_Password = '''', opt_DB = 0, opt_PoolSize = 64,
      opt_ReadTimeout = - 1\<rparr> \<and>
   library_NewClient 4
     \<lparr>opt_Addr = '''', opt_Password = '''', opt_DB = 0, opt_PoolSize = 64,
      opt_ReadTimeout = - 1\<rparr> =
     \<lparr>client_opt =
       \<lparr>opt_Addr = ''localhost:6379'', opt_Password = '''', opt_DB = 0, opt_PoolSize = 64,
        opt_ReadTimeout = 0\<rparr>\<rparr>"
proof -
  let ?h = "\<lparr>host = ''localhost:6379'', password = ''secret'', db = 0, poolSize = 0,
             readTimeout = 0, client = None\<rparr>"
  have pre: "handle_ok cache_world (redis_logger cache_world) \<and>
      deref (caches cache_world) (Addr 0) = Some ?h \<and>
      backend_fault cache_world (client_opt (library_NewClient 4 (redisOpt ?h))) = None"
    by (simp add: cache_world_ok cache_world_handle cache_world_backend)
  note t = InitClient_options [where w = cache_world and r = "Addr 0" and F = plain_fmt
      and NewClient = "library_NewClient 4" and h = ?h]
  from t [THEN conjunct2, THEN conjunct2, THEN conjunct2, rule_format, OF pre]
  have a: "fst (andThen (InitClient plain_fmt (library_NewClient 4) (Addr 0))
          (\<lambda>_. GetClient (Addr 0)) cache_world) =
     Returns (Some \<lparr>client_opt =
       \<lparr>opt_Addr = ''localhost:6379'', opt_Password = ''secret'', opt_DB = 0, opt_PoolSize = 64,
        opt_ReadTimeout = 10000000000\<rparr>\<rparr>)"
    by (simp add: example_options example_client)
  from InitClient_options [where w = ready_world and config = example_config,
      THEN conjunct2, THEN conjunct2, THEN conjunct1]
  have b: "deref (caches (snd (NewRedis example_config ready_world))) (Addr 0) =
     Some ?h"
    by (simp add: ready_world_obs example_config_def)
  from InitClient_options [where h = "\<lparr>host = ''cache:6380'', password = '''', db = 2,
      poolSize = 8, readTimeout = 3 * Second, client = None\<rparr>", THEN conjunct1]
  have c: "redisOpt \<lparr>host = ''cache:6380'', password = '''', db = 2, poolSize = 8,
             readTimeout = 3 * Second, client = None\<rparr> =
     \<lparr>opt_Addr = ''cache:6380'', opt_Password = '''', opt_DB = 2, opt_PoolSize = 8,
      opt_ReadTimeout = 3000000000\<rparr>"
    by (simp add: Second_def)
  from InitClient_options [where h = "\<lparr>host = '''', password = '''', db = 0,
      poolSize = 0, readTimeout = - 1, client = None\<rparr>", THEN conjunct1]
  have d: "redisOpt \<lparr>host = '''', password = '''', db = 0, poolSize = 0, readTimeout = - 1,
             client = None\<rparr> =
     \<lparr>opt_Addr = '''', opt_Password = '''', opt_DB = 0, opt_PoolSize = 64,
      opt_ReadTimeout = - 1\<rparr>"
    by simp
  have e: "library_NewClient 4
     \<lparr>opt_Addr = '''', opt_Password = '''', opt_DB = 0, opt_PoolSize = 64,
      opt_ReadTimeout = - 1\<rparr> =
     \<lparr>client_opt =
       \<lparr>opt_Addr = ''localhost:6379'', opt_Password = '''', opt_DB = 0, opt_PoolSize = 64,
        opt_ReadTimeout = 0\<rparr>\<rparr>"
    by (simp add: library_NewClient_def init_Options_def)
  from a b c d e cache_world_ok show ?thesis by simp
qed

lemma GetRedisValue_run:
  assumes "deref (caches w) r = Some h" and "client h = Some cl"
  shows "GetRedisValue r key w =
     (case backend_fault w (client_opt cl) of
        Some e \<Rightarrow> (Returns '''', w)
      | None \<Rightarrow>
          (case backend_keys w key of
             None \<Rightarrow> (Returns '''', w)
           | Some v \<Rightarrow> (Returns v, w)))"
  using assms
  by (simp add: GetRedisValue_def andThen_def get_redis_def Client_Get_def return_def
      split: option.splits)

lemma DeleteRedisValue_run:
  assumes "deref (caches w) r = Some h" and "client h = Some cl"
  shows "DeleteRedisValue r key w =
     (case backend_fault w (client_opt cl) of
        Some e \<Rightarrow> (Returns 0, w)
      | None \<Rightarrow>
          (case backend_keys w key of
             None \<Rightarrow> (Returns 0, w)
           | Some v \<Rightarrow> (Returns 1, w\<lparr>backend_keys := (backend_keys w)(key := None)\<rparr>)))"
  using assms
  by (simp add: DeleteRedisValue_def andThen_def get_redis_def Client_Del_def return_def
      split: option.splits)

lemma GetRedisValue_of_reply:
  assumes "deref (caches w) r = Some h" and "client h = Some cl"
    and "Client_Get cl key w = (Returns (val, err), w')"
  shows "GetRedisValue r key w = (Returns (if err = None then val else ''''), w')"
  using assms
  by (simp add: GetRedisValue_def andThen_def get_redis_def return_def)

lemma DeleteRedisValue_of_reply:
  assumes "deref (caches w) r = Some h" and "client h = Some cl"
    and "Client_Del cl key w = (Returns (n, err), w')"
  shows "DeleteRedisValue r key w = (Returns (if err = None then n else 0), w')"
  using assms
  by (simp add: DeleteRedisValue_def andThen_def get_redis_def return_def)

lemma failed_replies:
  assumes "backend_fault w (client_opt cl) = Some e"
  shows "Client_Get cl key w = (Returns (fault_value w key, Some e), w)"
    and "Client_Del cl key w = (Returns (fault_count w key, Some e), w)"
  using assms by (simp_all add: Client_Get_def Client_Del_def)

text \<open>
  C4. On a cache handle whose client is set. Whatever reply the client's \<^verbatim>\<open>Get\<close>
  gives, a value and an error, \<open>GetRedisValue\<close> returns the value when the error is
  \<^verbatim>\<open>nil\<close> and the empty string when it is not, whatever value the reply carries
  beside the error; and whatever reply the client's \<^verbatim>\<open>Del\<close> gives, a count and an
  error, \<open>DeleteRedisValue\<close> returns the count when the error is \<^verbatim>\<open>nil\<close> and 0 when
  it is not. So for a key the backend holds they return the stored string, and 1 with
  the key gone; for a key the backend does not hold, the empty string and 0; and when
  the backend fails, with a reply that carries \<open>fault_value\<close> or \<open>fault_count\<close> beside
  the error, again the empty string and 0. In the absent case and in the failing case
  the result is the same and the world is left as it was.
\<close>

theorem GetRedisValue_DeleteRedisValue_results:
  assumes "deref (caches w) r = Some h" and "client h = Some cl"
  shows
    "(\<forall>val err w'. Client_Get cl key w = (Returns (val, err), w') \<longrightarrow>
        GetRedisValue r key w = (Returns (if err = None then val else ''''), w')) \<and>
     (\<forall>n err w'. Client_Del cl key w = (Returns (n, err), w') \<longrightarrow>
        DeleteRedisValue r key w = (Returns (if err = None then n else 0), w')) \<and>
     (backend_fault w (client_opt cl) = None \<and> backend_keys w key = Some v \<longrightarrow>
        GetRedisValue r key w = (Returns v, w) \<and>
        DeleteRedisValue r key w =
          (Returns 1, w\<lparr>backend_keys := (backend_keys w)(key := None)\<rparr>)) \<and>
     (backend_fault w (client_opt cl) = None \<and> backend_keys w key = None \<longrightarrow>
        GetRedisValue r key w = (Returns '''', w) \<and>
        DeleteRedisValue r key w = (Returns 0, w)) \<and>
     (backend_fault w (client_opt cl) = Some e \<longrightarrow>
        Client_Get cl key w = (Returns (fault_value w key, Some e), w) \<and>
        GetRedisValue r key w = (Returns '''', w) \<and>
        Client_Del cl key w = (Returns (fault_count w key, Some e), w) \<and>
        DeleteRedisValue r key w = (Returns 0, w))"
proof (intro conjI allI impI)
  fix val err w'
  assume "Client_Get cl key w = (Returns (val, err), w')"
  from GetRedisValue_of_reply [OF assms this]
  show "GetRedisValue r key w = (Returns (if err = None then val else ''''), w')" .
next
  fix n err w'
  assume "Client_Del cl key w = (Returns (n, err), w')"
  from DeleteRedisValue_of_reply [OF assms this]
  show "DeleteRedisValue r key w = (Returns (if err = None then n else 0), w')" .
next
  assume "backend_fault w (client_opt cl) = None \<and> backend_keys w key = Some v"
  then show "GetRedisValue r key w = (Returns v, w)"
    and "DeleteRedisValue r key w =
          (Returns 1, w\<lparr>backend_keys := (backend_keys w)(key := None)\<rparr>)"
    by (simp_all add: GetRedisValue_run [OF assms] DeleteRedisValue_run [OF assms])
next
  assume "backend_fault w (client_opt cl) = None \<and> backend_keys w key = None"
  then show "GetRedisValue r key w = (Returns '''', w)"
    and "DeleteRedisValue r key w = (Returns 0, w)"
    by (simp_all add: GetRedisValue_run [OF assms] DeleteRedisValue_run [OF assms])
next
  assume fails: "backend_fault w (client_opt cl) = Some e"
  then show "GetRedisValue r key w = (Returns '''', w)"
    and "DeleteRedisValue r key w = (Returns 0, w)"
    by (simp_all add: GetRedisValue_run [OF assms] DeleteRedisValue_run [OF assms])
  from failed_replies [OF fails]
  show "Client_Get cl key w = (Returns (fault_value w key, Some e), w)"
    and "Client_Del cl key w = (Returns (fault_count w key, Some e), w)"
    by simp_all
qed

lemma served_world_handle:
  "deref (caches served_world) (Addr 0) =
     Some \<lparr>host = ''localhost:6379'', password = ''secret'', db = 0, poolSize = 0,
           readTimeout = 0,
           client = Some \<lparr>client_opt =
             \<lparr>opt_Addr = ''localhost:6379'', opt_Password = ''secret'', opt_DB = 0,
              opt_PoolSize = 64, opt_ReadTimeout = 10000000000\<rparr>\<rparr>\<rparr>"
proof -
  let ?h = "\<lparr>host = ''localhost:6379'', password = ''secret'', db = 0, poolSize = 0,
             readTimeout = 0, client = None\<rparr>"
  have up: "backend_fault cache_world (client_opt (library_NewClient 4 (redisOpt ?h))) = None"
    by (simp add: cache_world_backend)
  from InitClient_run [OF cache_world_ok cache_world_handle, of plain_fmt "library_NewClient 4"]
    up
  obtain w' where "InitClient plain_fmt (library_NewClient 4) (Addr 0) cache_world =
       (Returns None,
        w'\<lparr>caches := assign (caches cache_world) (Addr 0)
              (?h\<lparr>client := Some (library_NewClient 4 (redisOpt ?h))\<rparr>)\<rparr>)"
    by auto
  then show ?thesis
    using deref_assign_same [OF cache_world_handle]
    by (simp add: served_world_def example_options example_client)
qed

lemma served_world_backend:
  "backend_fault served_world = (\<lambda>_. None)" "backend_keys served_world = [''k'' \<mapsto> ''v'']"
  by (simp_all add: served_world_def InitClient_frame [OF cache_world_ok cache_world_handle]
      cache_world_backend)

lemma failing_world_handle:
  "deref (caches failing_world) (Addr 0) =
     Some \<lparr>host = ''localhost:6379'', password = ''secret'', db = 0, poolSize = 0,
           readTimeout = 0,
           client = Some \<lparr>client_opt =
             \<lparr>opt_Addr = ''localhost:6379'', opt_Password = ''secret'', opt_DB = 0,
              opt_PoolSize = 64, opt_ReadTimeout = 10000000000\<rparr>\<rparr>\<rparr>"
  using served_world_handle by (simp add: failing_world_def)

text \<open>
  The key \<open>k\<close> holds \<open>v\<close>. A sound backend gives \<open>v\<close> for \<open>k\<close> and the empty string
  for a missing key, and deletes 1 and 0 keys. A failing backend answers for \<open>k\<close> itself
  with an error beside the value \<open>partial\<close> and beside the count 7: the handle returns
  the empty string and 0, not what the replies carry.
\<close>

theorem GetRedisValue_DeleteRedisValue_results_witness:
  "fst (GetClient (Addr 0) served_world) \<noteq> Returns None \<and>
   fst (GetRedisValue (Addr 0) ''k'' served_world) = Returns ''v'' \<and>
   fst (GetRedisValue (Addr 0) ''missing-key'' served_world) = Returns '''' \<and>
   fst (DeleteRedisValue (Addr 0) ''k'' served_world) = Returns 1 \<and>
   backend_keys (snd (DeleteRedisValue (Addr 0) ''k'' served_world)) ''k'' = None \<and>
   fst (DeleteRedisValue (Addr 0) ''missing-key'' served_world) = Returns 0 \<and>
   fst (Client_Get
          \<lparr>client_opt =
             \<lparr>opt_Addr = ''localhost:6379'', opt_Password = ''secret'', opt_DB = 0,
              opt_PoolSize = 64, opt_ReadTimeout = 10000000000\<rparr>\<rparr> ''k'' failing_world) =
     Returns (''partial'', Some (ReplyError ''i/o timeout'')) \<and>
   fst (GetRedisValue (Addr 0) ''k'' failing_world) = Returns '''' \<and>
   fst (Client_Del
          \<lparr>client_opt =
             \<lparr>opt_Addr = ''localhost:6379'', opt_Password = ''secret'', opt_DB = 0,
              opt_PoolSize = 64, opt_ReadTimeout = 10000000000\<rparr>\<rparr> ''k'' failing_world) =
     Returns (7, Some (ReplyError ''i/o timeout'')) \<and>
   fst (DeleteRedisValue (Addr 0) ''k'' failing_world) = Returns 0"
proof -
  let ?cl = "\<lparr>client_opt =
             \<lparr>opt_Addr = ''localhost:6379'', opt_Password = ''secret'', opt_DB = 0,
              opt_PoolSize = 64, opt_ReadTimeout = 10000000000\<rparr>\<rparr>"
  let ?h = "\<lparr>host = ''localhost:6379'', password = ''secret'', db = 0, poolSize = 0,
           readTimeout = 0, client = Some ?cl\<rparr>"
  have cl: "client ?h = Some ?cl" by simp
  note served = GetRedisValue_DeleteRedisValue_results [OF served_world_handle cl]
  note failing = GetRedisValue_DeleteRedisValue_results [OF failing_world_handle cl]
  have held: "backend_fault served_world (client_opt ?cl) = None \<and>
      backend_keys served_world ''k'' = Some ''v''"
    by (simp add: served_world_backend)
  have absent: "backend_fault served_world (client_opt ?cl) = None \<and>
      backend_keys served_world ''missing-key'' = None"
    by (simp add: served_world_backend)
  have fails: "backend_fault failing_world (client_opt ?cl) = Some (ReplyError ''i/o timeout'')"
    by (simp add: failing_world_def)
  have carried: "fault_value failing_world ''k'' = ''partial''"
    "fault_count failing_world ''k'' = 7"
    by (simp_all add: failing_world_def)
  note a = served [of "''k''" "''v''", THEN conjunct2, THEN conjunct2, THEN conjunct1,
      rule_format, OF held]
  note b = served [of "''missing-key''", THEN conjunct2, THEN conjunct2, THEN conjunct2,
      THEN conjunct1, rule_format, OF absent]
  note c = failing [of "''k''" _ "ReplyError ''i/o timeout''", THEN conjunct2, THEN conjunct2,
      THEN conjunct2, THEN conjunct2, rule_format, OF fails]
  have g: "fst (GetClient (Addr 0) served_world) \<noteq> Returns None"
    by (simp add: GetClient_def andThen_def get_redis_def return_def served_world_handle)
  from a b c g carried show ?thesis by simp
qed

end
